theory Spec2Isabelle
  imports Complex_Main "HOL-Library.Signed_Division"
begin

section \<open>Voxel-wise traversal of three images (irtkForEachTernaryVoxelFunction.h)\<close>

text \<open>
  The header defines, four times over (3 const images; 2 const, 1 non-const; 1 const,
  2 non-const; 3 non-const), two traversal bodies and the entry points \<open>ForEachScalar\<close>,
  \<open>ForEachVoxel\<close>, \<open>ForEachVoxelIf\<close>, \<open>ParallelForEachVoxel\<close>, ... built on them. The four
  copies differ only in the \<open>const\<close> qualifiers of the image and pointer types and in the
  suffix of the body's name (\<open>_Const\<close>, \<open>_2Const\<close>, \<open>_1Const\<close>, none), so the embedding
  below, written from the first copy, is the embedding of each of them.
\<close>

subsection \<open>Images, attributes and voxel pointers\<close>

text \<open>
  \<open>irtkImageAttributes\<close>: the fields \<open>_x\<close>, \<open>_y\<close>, \<open>_z\<close>, \<open>_t\<close> (C++ \<open>int\<close>, given as
  integers; the code compares them, counts up to them, and computes the strides of the
  2- and 3-dimensional ranges from them, which is done in 32 bits below) and the temporal
  spacing \<open>_dt\<close> (a \<open>double\<close>, of which the code only asks whether it is zero).
\<close>

record irtkImageAttributes =
  a_x :: int
  a_y :: int
  a_z :: int
  a_t :: int
  a_dt :: real

text \<open>
  An image: its attributes, whether it reports empty, and the identity of its voxel
  buffer. A pointer to a voxel is a buffer and an offset counted in voxels; the null
  pointer is offset 0 of no buffer, and \<open>p += n\<close> moves the offset whatever the buffer.
\<close>

record irtkGenericImage =
  attr :: irtkImageAttributes
  is_empty :: bool
  buffer :: nat

datatype ptr = Ptr (region: "nat option") (offs: int)

definition NULL :: ptr where
  "NULL = Ptr None 0"

definition ptr_add :: "ptr \<Rightarrow> int \<Rightarrow> ptr" where
  "ptr_add p n = Ptr (region p) (offs p + n)"

definition GetX :: "irtkGenericImage \<Rightarrow> int" where
  "GetX im = a_x (attr im)"

definition GetY :: "irtkGenericImage \<Rightarrow> int" where
  "GetY im = a_y (attr im)"

definition GetZ :: "irtkGenericImage \<Rightarrow> int" where
  "GetZ im = a_z (attr im)"

definition GetT :: "irtkGenericImage \<Rightarrow> int" where
  "GetT im = a_t (attr im)"

definition GetTSize :: "irtkGenericImage \<Rightarrow> real" where
  "GetTSize im = a_dt (attr im)"

definition IsEmpty :: "irtkGenericImage \<Rightarrow> bool" where
  "IsEmpty im = is_empty im"

definition GetNumberOfVoxels :: "irtkGenericImage \<Rightarrow> int" where
  \<comment> \<open>Modelled from the spec: the accessor is declared in the image class, which is not
      among the sources; the image exposes its "total voxel count", the product of the
      four extents.\<close>
  "GetNumberOfVoxels im = GetX im * GetY im * GetZ im * GetT im"

definition GetPointerToVoxels :: "irtkGenericImage \<Rightarrow> ptr" where
  "GetPointerToVoxels im = Ptr (Some (buffer im)) 0"

definition GetPointerToVoxels4 :: "irtkGenericImage \<Rightarrow> int \<Rightarrow> int \<Rightarrow> int \<Rightarrow> int \<Rightarrow> ptr" where
  \<comment> \<open>Modelled from the spec: the four-argument accessor is declared in the image class,
      which is not among the sources; the buffer is "row-major, x fastest".\<close>
  "GetPointerToVoxels4 im x y z t =
     Ptr (Some (buffer im)) (x + GetX im * (y + GetY im * (z + GetZ im * t)))"

subsection \<open>Arithmetic on \<open>int\<close>\<close>

text \<open>
  A C++ \<open>int\<close> has 32 bits. \<open>int32 n\<close> is the value that an operation on \<open>int\<close> leaves
  when its mathematical result is \<open>n\<close>: \<open>n\<close> itself when it fits, and \<open>n\<close> wrapped around
  modulo \<open>2^32\<close> (two's complement) when it does not. \<open>fits_int n\<close> says that it fits.
\<close>

definition int32 :: "int \<Rightarrow> int" where
  "int32 n = (n + 2 ^ 31) mod 2 ^ 32 - 2 ^ 31"

definition fits_int :: "int \<Rightarrow> bool" where
  "fits_int n \<longleftrightarrow> - (2 ^ 31) \<le> n \<and> n < 2 ^ 31"

subsection \<open>Ranges\<close>

record blocked_range =
  r_begin :: int
  r_end :: int

record blocked_range2d =
  rows2 :: blocked_range
  cols2 :: blocked_range

record blocked_range3d =
  pages3 :: blocked_range
  rows3 :: blocked_range
  cols3 :: blocked_range

definition mk_range :: "int \<Rightarrow> int \<Rightarrow> blocked_range" where
  "mk_range b e = \<lparr>r_begin = b, r_end = e\<rparr>"

definition mk_range3d :: "int \<Rightarrow> int \<Rightarrow> int \<Rightarrow> int \<Rightarrow> int \<Rightarrow> int \<Rightarrow> blocked_range3d" where
  \<comment> \<open>\<open>blocked_range3d<int> re(pb, pe, rb, re, cb, ce)\<close>: pages, rows, columns.\<close>
  "mk_range3d pb pe rb re cb ce =
     \<lparr>pages3 = mk_range pb pe, rows3 = mk_range rb re, cols3 = mk_range cb ce\<rparr>"

subsection \<open>Voxel functions\<close>

text \<open>
  A voxel function is an object with a state of its own (type \<open>'f\<close>) that also reads and
  writes memory shared with its copies and with the caller (type \<open>'m\<close>: the voxel buffers
  and whatever else its pointers reach). It offers the call with four coordinates, the call
  with an image and a flat index, \<open>split\<close> and \<open>join\<close>, and the static \<open>IsReduction()\<close>.
  \<open>vf_join F other\<close> is \<open>this->join(other)\<close>, a step on the state of \<open>this\<close>.
\<close>

record ('f, 'm) VoxelFunc =
  IsReduction :: bool
  call4 :: "int \<Rightarrow> int \<Rightarrow> int \<Rightarrow> int \<Rightarrow> ptr \<Rightarrow> ptr \<Rightarrow> ptr \<Rightarrow> 'f \<times> 'm \<Rightarrow> 'f \<times> 'm"
  calli :: "irtkGenericImage \<Rightarrow> int \<Rightarrow> ptr \<Rightarrow> ptr \<Rightarrow> ptr \<Rightarrow> 'f \<times> 'm \<Rightarrow> 'f \<times> 'm"
  vf_split :: "'f \<Rightarrow> 'f \<times> 'm \<Rightarrow> 'f \<times> 'm"
  vf_join :: "'f \<Rightarrow> 'f \<times> 'm \<Rightarrow> 'f \<times> 'm"

text \<open>
  The domain of an \<open>If\<close> traversal: the two forms of the static \<open>IsInside\<close>, which may read
  the memory the pointer reaches.
\<close>

record 'm Domain =
  IsInside4 :: "irtkGenericImage \<Rightarrow> int \<Rightarrow> int \<Rightarrow> int \<Rightarrow> int \<Rightarrow> ptr \<Rightarrow> 'm \<Rightarrow> bool"
  IsInsidei :: "irtkGenericImage \<Rightarrow> int \<Rightarrow> ptr \<Rightarrow> 'm \<Rightarrow> bool"

subsection \<open>Loops and cursors\<close>

text \<open>\<open>for (int v = b; v < e; ++v) body(v)\<close> on a state.\<close>

function for_loop :: "int \<Rightarrow> int \<Rightarrow> (int \<Rightarrow> 's \<Rightarrow> 's) \<Rightarrow> 's \<Rightarrow> 's" where
  "for_loop v e body s = (if v < e then for_loop (v + 1) e body (body v s) else s)"
  by pat_completeness auto
termination
  by (relation "measure (\<lambda>(v, e, body, s). nat (e - v))") auto

declare for_loop.simps [simp del]

text \<open>The three cursors \<open>p1\<close>, \<open>p2\<close>, \<open>p3\<close> of a body, and \<open>p1 += n, p2 += n, p3 += n\<close>.\<close>

type_synonym cursors = "ptr \<times> ptr \<times> ptr"

definition advance :: "int \<Rightarrow> cursors \<Rightarrow> cursors" where
  "advance n c = (case c of (p1, p2, p3) \<Rightarrow> (ptr_add p1 n, ptr_add p2 n, ptr_add p3 n))"

definition start :: "irtkGenericImage \<Rightarrow> ptr" where
  \<comment> \<open>\<open>im.IsEmpty() ? NULL : im.GetPointerToVoxels()\<close>\<close>
  "start im = (if IsEmpty im then NULL else GetPointerToVoxels im)"

definition start_from :: "irtkGenericImage \<Rightarrow> int \<Rightarrow> ptr" where
  \<comment> \<open>\<open>im.IsEmpty() ? NULL : im.GetPointerToVoxels() + n\<close>\<close>
  "start_from im n = (if IsEmpty im then NULL else ptr_add (GetPointerToVoxels im) n)"

definition start_at :: "irtkGenericImage \<Rightarrow> int \<Rightarrow> int \<Rightarrow> int \<Rightarrow> int \<Rightarrow> ptr" where
  \<comment> \<open>\<open>im.IsEmpty() ? NULL : im.GetPointerToVoxels(i, j, k, l)\<close>\<close>
  "start_at im i j k l = (if IsEmpty im then NULL else GetPointerToVoxels4 im i j k l)"

subsection \<open>The body of ForEachVoxel\<close>

text \<open>
  \<open>irtkTernaryForEachVoxelBody_Const\<close>: the three images, the functor \<open>_VoxelFunc\<close> and
  the fixed indices \<open>_k\<close>, \<open>_l\<close> of the base class. Each \<open>operator()\<close> is a step on the
  state of \<open>_VoxelFunc\<close> and the memory.
\<close>

definition body_attr ::
  "('f, 'm) VoxelFunc \<Rightarrow> irtkGenericImage \<Rightarrow> irtkGenericImage \<Rightarrow> irtkGenericImage \<Rightarrow>
   irtkImageAttributes \<Rightarrow> 'f \<times> 'm \<Rightarrow> 'f \<times> 'm" where
  "body_attr F im1 im2 im3 A s =
     (let c0 = (start im1, start im2, start im3);
          T = (if a_dt A \<noteq> 0 then a_t A else 1)
      in snd (for_loop 0 T (\<lambda>l.
              for_loop 0 (a_z A) (\<lambda>k.
              for_loop 0 (a_y A) (\<lambda>j.
              for_loop 0 (a_x A) (\<lambda>i (c, s).
                (advance 1 c,
                 case c of (p1, p2, p3) \<Rightarrow> call4 F i j k l p1 p2 p3 s))))) (c0, s)))"

definition body_re1 ::
  "('f, 'm) VoxelFunc \<Rightarrow> irtkGenericImage \<Rightarrow> irtkGenericImage \<Rightarrow> irtkGenericImage \<Rightarrow>
   blocked_range \<Rightarrow> 'f \<times> 'm \<Rightarrow> 'f \<times> 'm" where
  "body_re1 F im1 im2 im3 re s =
     (let c0 = (start_from im1 (r_begin re), start_from im2 (r_begin re),
               start_from im3 (r_begin re))
      in snd (for_loop (r_begin re) (r_end re) (\<lambda>idx (c, s).
                (advance 1 c,
                 case c of (p1, p2, p3) \<Rightarrow> calli F im3 idx p1 p2 p3 s)) (c0, s)))"

definition body_re2 ::
  "('f, 'm) VoxelFunc \<Rightarrow> irtkGenericImage \<Rightarrow> irtkGenericImage \<Rightarrow> irtkGenericImage \<Rightarrow>
   int \<Rightarrow> int \<Rightarrow> blocked_range2d \<Rightarrow> 'f \<times> 'm \<Rightarrow> 'f \<times> 'm" where
  \<comment> \<open>\<open>bk\<close>, \<open>bl\<close> are the body's \<open>_k\<close> and \<open>_l\<close>; the stride \<open>s1\<close> is a \<open>const int\<close>.\<close>
  "body_re2 F im1 im2 im3 bk bl re s =
     (let bi = r_begin (cols2 re); bj = r_begin (rows2 re);
          ei = r_end (cols2 re); ej = r_end (rows2 re);
          s1 = int32 (GetX im3 - int32 (ei - bi));
          c0 = (start_at im1 bi bj bk bl, start_at im2 bi bj bk bl, start_at im3 bi bj bk bl)
      in snd (for_loop bj ej (\<lambda>j cs.
           case for_loop bi ei (\<lambda>i (c, s).
                  (advance 1 c,
                   case c of (p1, p2, p3) \<Rightarrow> call4 F i j bk bl p1 p2 p3 s)) cs
           of (c, s) \<Rightarrow> (advance s1 c, s)) (c0, s)))"

definition body_re3 ::
  "('f, 'm) VoxelFunc \<Rightarrow> irtkGenericImage \<Rightarrow> irtkGenericImage \<Rightarrow> irtkGenericImage \<Rightarrow>
   int \<Rightarrow> blocked_range3d \<Rightarrow> 'f \<times> 'm \<Rightarrow> 'f \<times> 'm" where
  \<comment> \<open>\<open>bl\<close> is the body's \<open>_l\<close>; the strides \<open>s1\<close>, \<open>s2\<close> are \<open>const int\<close>.\<close>
  "body_re3 F im1 im2 im3 bl re s =
     (let bi = r_begin (cols3 re); bj = r_begin (rows3 re); bk = r_begin (pages3 re);
          ei = r_end (cols3 re); ej = r_end (rows3 re); ek = r_end (pages3 re);
          s1 = int32 (GetX im3 - int32 (ei - bi));
          s2 = int32 (int32 (GetY im3 - int32 (ej - bj)) * GetX im3);
          c0 = (start_at im1 bi bj bk bl, start_at im2 bi bj bk bl, start_at im3 bi bj bk bl)
      in snd (for_loop bk ek (\<lambda>k cs.
           case for_loop bj ej (\<lambda>j cs.
                  case for_loop bi ei (\<lambda>i (c, s).
                         (advance 1 c,
                          case c of (p1, p2, p3) \<Rightarrow> call4 F i j k bl p1 p2 p3 s)) cs
                  of (c, s) \<Rightarrow> (advance s1 c, s)) cs
           of (c, s) \<Rightarrow> (advance s2 c, s)) (c0, s)))"

subsection \<open>The body of ForEachVoxelIf\<close>

text \<open>
  \<open>irtkTernaryForEachVoxelIfBody_Const\<close> holds two functors, \<open>_VoxelFunc\<close> and
  \<open>_OutsideFunc\<close>; its state is the pair of their states, and the memory.
\<close>

definition on_inside :: "('f \<times> 'm \<Rightarrow> 'f \<times> 'm) \<Rightarrow> ('f \<times> 'g) \<times> 'm \<Rightarrow> ('f \<times> 'g) \<times> 'm" where
  "on_inside h s = (case s of ((f, g), m) \<Rightarrow> (case h (f, m) of (f', m') \<Rightarrow> ((f', g), m')))"

definition on_outside :: "('g \<times> 'm \<Rightarrow> 'g \<times> 'm) \<Rightarrow> ('f \<times> 'g) \<times> 'm \<Rightarrow> ('f \<times> 'g) \<times> 'm" where
  "on_outside h s = (case s of ((f, g), m) \<Rightarrow> (case h (g, m) of (g', m') \<Rightarrow> ((f, g'), m')))"

definition ifbody_attr ::
  "'m Domain \<Rightarrow> ('f, 'm) VoxelFunc \<Rightarrow> ('g, 'm) VoxelFunc \<Rightarrow>
   irtkGenericImage \<Rightarrow> irtkGenericImage \<Rightarrow> irtkGenericImage \<Rightarrow>
   irtkImageAttributes \<Rightarrow> ('f \<times> 'g) \<times> 'm \<Rightarrow> ('f \<times> 'g) \<times> 'm" where
  "ifbody_attr D F G im1 im2 im3 A s =
     (let c0 = (start im1, start im2, start im3);
          T = (if a_dt A \<noteq> 0 then a_t A else 1)
      in snd (for_loop 0 T (\<lambda>l.
              for_loop 0 (a_z A) (\<lambda>k.
              for_loop 0 (a_y A) (\<lambda>j.
              for_loop 0 (a_x A) (\<lambda>i (c, s).
                (advance 1 c,
                 case c of (p1, p2, p3) \<Rightarrow>
                   if IsInside4 D im3 i j k l p3 (snd s)
                   then on_inside (call4 F i j k l p1 p2 p3) s
                   else on_outside (call4 G i j k l p1 p2 p3) s))))) (c0, s)))"

definition ifbody_re1 ::
  "'m Domain \<Rightarrow> ('f, 'm) VoxelFunc \<Rightarrow> ('g, 'm) VoxelFunc \<Rightarrow>
   irtkGenericImage \<Rightarrow> irtkGenericImage \<Rightarrow> irtkGenericImage \<Rightarrow>
   blocked_range \<Rightarrow> ('f \<times> 'g) \<times> 'm \<Rightarrow> ('f \<times> 'g) \<times> 'm" where
  "ifbody_re1 D F G im1 im2 im3 re s =
     (let c0 = (start_from im1 (r_begin re), start_from im2 (r_begin re),
               start_from im3 (r_begin re))
      in snd (for_loop (r_begin re) (r_end re) (\<lambda>idx (c, s).
                (advance 1 c,
                 case c of (p1, p2, p3) \<Rightarrow>
                   if IsInsidei D im3 idx p3 (snd s)
                   then on_inside (calli F im3 idx p1 p2 p3) s
                   else on_outside (calli G im3 idx p1 p2 p3) s)) (c0, s)))"

definition ifbody_re2 ::
  "'m Domain \<Rightarrow> ('f, 'm) VoxelFunc \<Rightarrow> ('g, 'm) VoxelFunc \<Rightarrow>
   irtkGenericImage \<Rightarrow> irtkGenericImage \<Rightarrow> irtkGenericImage \<Rightarrow>
   int \<Rightarrow> int \<Rightarrow> blocked_range2d \<Rightarrow> ('f \<times> 'g) \<times> 'm \<Rightarrow> ('f \<times> 'g) \<times> 'm" where
  "ifbody_re2 D F G im1 im2 im3 bk bl re s =
     (let bi = r_begin (cols2 re); bj = r_begin (rows2 re);
          ei = r_end (cols2 re); ej = r_end (rows2 re);
          s1 = int32 (GetX im3 - int32 (ei - bi));
          c0 = (start_at im1 bi bj bk bl, start_at im2 bi bj bk bl, start_at im3 bi bj bk bl)
      in snd (for_loop bj ej (\<lambda>j cs.
           case for_loop bi ei (\<lambda>i (c, s).
                  (advance 1 c,
                   case c of (p1, p2, p3) \<Rightarrow>
                     if IsInside4 D im3 i j bk bl p3 (snd s)
                     then on_inside (call4 F i j bk bl p1 p2 p3) s
                     else on_outside (call4 G i j bk bl p1 p2 p3) s)) cs
           of (c, s) \<Rightarrow> (advance s1 c, s)) (c0, s)))"

definition ifbody_re3 ::
  "'m Domain \<Rightarrow> ('f, 'm) VoxelFunc \<Rightarrow> ('g, 'm) VoxelFunc \<Rightarrow>
   irtkGenericImage \<Rightarrow> irtkGenericImage \<Rightarrow> irtkGenericImage \<Rightarrow>
   int \<Rightarrow> blocked_range3d \<Rightarrow> ('f \<times> 'g) \<times> 'm \<Rightarrow> ('f \<times> 'g) \<times> 'm" where
  "ifbody_re3 D F G im1 im2 im3 bl re s =
     (let bi = r_begin (cols3 re); bj = r_begin (rows3 re); bk = r_begin (pages3 re);
          ei = r_end (cols3 re); ej = r_end (rows3 re); ek = r_end (pages3 re);
          s1 = int32 (GetX im3 - int32 (ei - bi));
          s2 = int32 (int32 (GetY im3 - int32 (ej - bj)) * GetX im3);
          c0 = (start_at im1 bi bj bk bl, start_at im2 bi bj bk bl, start_at im3 bi bj bk bl)
      in snd (for_loop bk ek (\<lambda>k cs.
           case for_loop bj ej (\<lambda>j cs.
                  case for_loop bi ei (\<lambda>i (c, s).
                         (advance 1 c,
                          case c of (p1, p2, p3) \<Rightarrow>
                            if IsInside4 D im3 i j k bl p3 (snd s)
                            then on_inside (call4 F i j k bl p1 p2 p3) s
                            else on_outside (call4 G i j k bl p1 p2 p3) s)) cs
                  of (c, s) \<Rightarrow> (advance s1 c, s)) cs
           of (c, s) \<Rightarrow> (advance s2 c, s)) (c0, s)))"

subsection \<open>Ways a call can end other than by returning\<close>

datatype error =
  Exit string int  \<comment> \<open>a message on \<open>cerr\<close>, then \<open>exit(status)\<close>\<close>
  | DivisionByZero  \<comment> \<open>integer division by zero\<close>

definition irtkforeachternaryvoxelfunction_must_not_be_reduction :: error where
  "irtkforeachternaryvoxelfunction_must_not_be_reduction =
     Exit (''(Parallel)ForEachVoxel(If): Voxel reductions must be passed by reference!'' @
           '' Pass voxel functor object(s) as last argument(s) instead of first.'') 1"

definition NOP :: "(unit, 'm) VoxelFunc" where
  \<comment> \<open>Modelled from the spec: \<open>irtkNaryVoxelFunction::NOP\<close> is declared in
      irtkVoxelFunction.h, which is not among the sources; the "default outside-functor
      is a no-op capability", and it is no reduction.\<close>
  "NOP = \<lparr>IsReduction = False,
          call4 = (\<lambda>i j k l p1 p2 p3 s. s),
          calli = (\<lambda>im idx p1 p2 p3 s. s),
          vf_split = (\<lambda>other s. s),
          vf_join = (\<lambda>other s. s)\<rparr>"

subsection \<open>ForEachScalar and ForEachVoxel\<close>

text \<open>
  Naming of the overloads: \<open>_p\<close> takes the images by pointer and \<open>_r\<close> by reference, both
  with the functor by reference as last argument; \<open>_vp\<close> and \<open>_vr\<close> take the functor by
  value as first argument. \<open>_attr\<close>, \<open>_re1\<close>, \<open>_re2\<close>, \<open>_re3\<close> take image attributes or a
  1-, 2-, 3-dimensional range. An image pointer is taken to point to an image.

  With the functor by reference a call is a step on the state of the caller's functor
  \<open>vf\<close> and the memory: the body is constructed with a copy of \<open>vf\<close>, run, and
  \<open>vf.join(body._VoxelFunc)\<close> is called. With the functor by value the caller keeps the
  memory only.
\<close>

definition ForEachScalar_p ::
  "('f, 'm) VoxelFunc \<Rightarrow> irtkGenericImage \<Rightarrow> irtkGenericImage \<Rightarrow> irtkGenericImage \<Rightarrow>
   'f \<times> 'm \<Rightarrow> 'f \<times> 'm" where
  "ForEachScalar_p F im1 im2 im3 s =
     (let re = mk_range 0 (GetNumberOfVoxels im3)
      in case body_re1 F im1 im2 im3 re s of (bf, m) \<Rightarrow> vf_join F bf (fst s, m))"

definition ForEachScalar_r ::
  "('f, 'm) VoxelFunc \<Rightarrow> irtkGenericImage \<Rightarrow> irtkGenericImage \<Rightarrow> irtkGenericImage \<Rightarrow>
   'f \<times> 'm \<Rightarrow> 'f \<times> 'm" where
  "ForEachScalar_r F im1 im2 im3 s =
     (let re = mk_range 0 (GetNumberOfVoxels im3)
      in case body_re1 F im1 im2 im3 re s of (bf, m) \<Rightarrow> vf_join F bf (fst s, m))"

definition ForEachScalar_vp ::
  "('f, 'm) VoxelFunc \<Rightarrow> irtkGenericImage \<Rightarrow> irtkGenericImage \<Rightarrow> irtkGenericImage \<Rightarrow>
   'f \<times> 'm \<Rightarrow> error + 'm" where
  "ForEachScalar_vp F im1 im2 im3 s =
     (if IsReduction F then Inl irtkforeachternaryvoxelfunction_must_not_be_reduction
      else Inr (snd (ForEachScalar_r F im1 im2 im3 s)))"

definition ForEachVoxel_p ::
  "('f, 'm) VoxelFunc \<Rightarrow> irtkGenericImage \<Rightarrow> irtkGenericImage \<Rightarrow> irtkGenericImage \<Rightarrow>
   'f \<times> 'm \<Rightarrow> error + 'f \<times> 'm" where
  "ForEachVoxel_p F im1 im2 im3 s =
     (if GetTSize im3 \<noteq> 0 then Inr (ForEachScalar_r F im1 im2 im3 s)
      else if GetT im3 = 0 then Inl DivisionByZero
      else (let re = mk_range 0 (GetNumberOfVoxels im3 sdiv GetT im3)
            in case body_re1 F im1 im2 im3 re s of (bf, m) \<Rightarrow> Inr (vf_join F bf (fst s, m))))"

definition ForEachVoxel_r ::
  "('f, 'm) VoxelFunc \<Rightarrow> irtkGenericImage \<Rightarrow> irtkGenericImage \<Rightarrow> irtkGenericImage \<Rightarrow>
   'f \<times> 'm \<Rightarrow> error + 'f \<times> 'm" where
  "ForEachVoxel_r F im1 im2 im3 s =
     (if GetTSize im3 \<noteq> 0 then Inr (ForEachScalar_r F im1 im2 im3 s)
      else if GetT im3 = 0 then Inl DivisionByZero
      else (let re = mk_range 0 (GetNumberOfVoxels im3 sdiv GetT im3)
            in case body_re1 F im1 im2 im3 re s of (bf, m) \<Rightarrow> Inr (vf_join F bf (fst s, m))))"

definition ForEachVoxel_vp ::
  "('f, 'm) VoxelFunc \<Rightarrow> irtkGenericImage \<Rightarrow> irtkGenericImage \<Rightarrow> irtkGenericImage \<Rightarrow>
   'f \<times> 'm \<Rightarrow> error + 'm" where
  "ForEachVoxel_vp F im1 im2 im3 s =
     (if IsReduction F then Inl irtkforeachternaryvoxelfunction_must_not_be_reduction
      else map_sum id snd (ForEachVoxel_r F im1 im2 im3 s))"

definition ForEachVoxel_attr_r ::
  "('f, 'm) VoxelFunc \<Rightarrow> irtkImageAttributes \<Rightarrow>
   irtkGenericImage \<Rightarrow> irtkGenericImage \<Rightarrow> irtkGenericImage \<Rightarrow> 'f \<times> 'm \<Rightarrow> 'f \<times> 'm" where
  "ForEachVoxel_attr_r F A im1 im2 im3 s =
     (case body_attr F im1 im2 im3 A s of (bf, m) \<Rightarrow> vf_join F bf (fst s, m))"

definition ForEachVoxel_attr_vr ::
  "('f, 'm) VoxelFunc \<Rightarrow> irtkImageAttributes \<Rightarrow>
   irtkGenericImage \<Rightarrow> irtkGenericImage \<Rightarrow> irtkGenericImage \<Rightarrow> 'f \<times> 'm \<Rightarrow> error + 'm" where
  "ForEachVoxel_attr_vr F A im1 im2 im3 s =
     (if IsReduction F then Inl irtkforeachternaryvoxelfunction_must_not_be_reduction
      else Inr (snd (ForEachVoxel_attr_r F A im1 im2 im3 s)))"

definition ForEachVoxel_re1_r ::
  "('f, 'm) VoxelFunc \<Rightarrow> blocked_range \<Rightarrow>
   irtkGenericImage \<Rightarrow> irtkGenericImage \<Rightarrow> irtkGenericImage \<Rightarrow> 'f \<times> 'm \<Rightarrow> 'f \<times> 'm" where
  "ForEachVoxel_re1_r F re im1 im2 im3 s =
     (case body_re1 F im1 im2 im3 re s of (bf, m) \<Rightarrow> vf_join F bf (fst s, m))"

definition ForEachVoxel_re1_vr ::
  "('f, 'm) VoxelFunc \<Rightarrow> blocked_range \<Rightarrow>
   irtkGenericImage \<Rightarrow> irtkGenericImage \<Rightarrow> irtkGenericImage \<Rightarrow> 'f \<times> 'm \<Rightarrow> error + 'm" where
  "ForEachVoxel_re1_vr F re im1 im2 im3 s =
     (if IsReduction F then Inl irtkforeachternaryvoxelfunction_must_not_be_reduction
      else Inr (snd (ForEachVoxel_re1_r F re im1 im2 im3 s)))"

text \<open>
  The body of these two calls is constructed by the base class, whose constructor is not
  among the sources; its fixed indices \<open>_k\<close>, \<open>_l\<close> at construction are the parameters
  \<open>k0\<close>, \<open>l0\<close>.
\<close>

definition ForEachVoxel_re2_r ::
  "int \<Rightarrow> int \<Rightarrow> ('f, 'm) VoxelFunc \<Rightarrow> blocked_range2d \<Rightarrow>
   irtkGenericImage \<Rightarrow> irtkGenericImage \<Rightarrow> irtkGenericImage \<Rightarrow> 'f \<times> 'm \<Rightarrow> 'f \<times> 'm" where
  "ForEachVoxel_re2_r k0 l0 F re im1 im2 im3 s =
     (case body_re2 F im1 im2 im3 k0 l0 re s of (bf, m) \<Rightarrow> vf_join F bf (fst s, m))"

definition ForEachVoxel_re3_r ::
  "int \<Rightarrow> ('f, 'm) VoxelFunc \<Rightarrow> blocked_range3d \<Rightarrow>
   irtkGenericImage \<Rightarrow> irtkGenericImage \<Rightarrow> irtkGenericImage \<Rightarrow> 'f \<times> 'm \<Rightarrow> 'f \<times> 'm" where
  "ForEachVoxel_re3_r l0 F re im1 im2 im3 s =
     (case body_re3 F im1 im2 im3 l0 re s of (bf, m) \<Rightarrow> vf_join F bf (fst s, m))"

subsection \<open>ForEachScalarIf and ForEachVoxelIf\<close>

text \<open>
  With two functors by reference a call is a step on the states of \<open>vf\<close> and \<open>of\<close> and the
  memory, ending with \<open>vf.join(body._VoxelFunc); of.join(body._OutsideFunc)\<close>.
\<close>

definition join_both ::
  "('f, 'm) VoxelFunc \<Rightarrow> ('g, 'm) VoxelFunc \<Rightarrow> 'f \<times> 'g \<Rightarrow> ('f \<times> 'g) \<times> 'm \<Rightarrow> ('f \<times> 'g) \<times> 'm" where
  "join_both F G b s = on_outside (vf_join G (snd b)) (on_inside (vf_join F (fst b)) s)"

definition ForEachScalarIf_r ::
  "'m Domain \<Rightarrow> ('f, 'm) VoxelFunc \<Rightarrow> ('g, 'm) VoxelFunc \<Rightarrow>
   irtkGenericImage \<Rightarrow> irtkGenericImage \<Rightarrow> irtkGenericImage \<Rightarrow>
   ('f \<times> 'g) \<times> 'm \<Rightarrow> ('f \<times> 'g) \<times> 'm" where
  "ForEachScalarIf_r D F G im1 im2 im3 s =
     (let re = mk_range 0 (GetNumberOfVoxels im3)
      in case ifbody_re1 D F G im1 im2 im3 re s of (b, m) \<Rightarrow> join_both F G b (fst s, m))"

text \<open>
  The forms with one functor: the outside-functor is a local \<open>NOP\<close>. With the functor by
  value only this functor is asked whether it is a reduction.
\<close>

definition ForEachScalarIf1_r ::
  "'m Domain \<Rightarrow> ('f, 'm) VoxelFunc \<Rightarrow>
   irtkGenericImage \<Rightarrow> irtkGenericImage \<Rightarrow> irtkGenericImage \<Rightarrow> 'f \<times> 'm \<Rightarrow> 'f \<times> 'm" where
  "ForEachScalarIf1_r D F im1 im2 im3 s =
     (case ForEachScalarIf_r D F NOP im1 im2 im3 ((fst s, ()), snd s)
      of ((f, u), m) \<Rightarrow> (f, m))"

definition ForEachScalarIf1_vr ::
  "'m Domain \<Rightarrow> ('f, 'm) VoxelFunc \<Rightarrow>
   irtkGenericImage \<Rightarrow> irtkGenericImage \<Rightarrow> irtkGenericImage \<Rightarrow> 'f \<times> 'm \<Rightarrow> error + 'm" where
  "ForEachScalarIf1_vr D F im1 im2 im3 s =
     (if IsReduction F then Inl irtkforeachternaryvoxelfunction_must_not_be_reduction
      else Inr (snd (ForEachScalarIf1_r D F im1 im2 im3 s)))"

definition ForEachVoxelIf_p ::
  "'m Domain \<Rightarrow> ('f, 'm) VoxelFunc \<Rightarrow> ('g, 'm) VoxelFunc \<Rightarrow>
   irtkGenericImage \<Rightarrow> irtkGenericImage \<Rightarrow> irtkGenericImage \<Rightarrow>
   ('f \<times> 'g) \<times> 'm \<Rightarrow> error + ('f \<times> 'g) \<times> 'm" where
  "ForEachVoxelIf_p D F G im1 im2 im3 s =
     (if GetTSize im3 \<noteq> 0 then Inr (ForEachScalarIf_r D F G im1 im2 im3 s)
      else if GetT im3 = 0 then Inl DivisionByZero
      else (let re = mk_range 0 (GetNumberOfVoxels im3 sdiv GetT im3)
            in case ifbody_re1 D F G im1 im2 im3 re s of (b, m) \<Rightarrow>
                 Inr (join_both F G b (fst s, m))))"

text \<open>
  The overload with the images by reference calls itself where the one by pointer calls
  \<open>ForEachScalarIf\<close>; a call that does not return has the value \<open>None\<close>.
\<close>

partial_function (option) ForEachVoxelIf_r ::
  "'m Domain \<Rightarrow> ('f, 'm) VoxelFunc \<Rightarrow> ('g, 'm) VoxelFunc \<Rightarrow>
   irtkGenericImage \<Rightarrow> irtkGenericImage \<Rightarrow> irtkGenericImage \<Rightarrow>
   ('f \<times> 'g) \<times> 'm \<Rightarrow> (error + ('f \<times> 'g) \<times> 'm) option" where
  "ForEachVoxelIf_r D F G im1 im2 im3 s =
     (if GetTSize im3 \<noteq> 0 then ForEachVoxelIf_r D F G im1 im2 im3 s
      else if GetT im3 = 0 then Some (Inl DivisionByZero)
      else (let re = mk_range 0 (GetNumberOfVoxels im3 sdiv GetT im3)
            in case ifbody_re1 D F G im1 im2 im3 re s of (b, m) \<Rightarrow>
                 Some (Inr (join_both F G b (fst s, m)))))"

definition ForEachVoxelIf_vp ::
  "'m Domain \<Rightarrow> ('f, 'm) VoxelFunc \<Rightarrow> ('g, 'm) VoxelFunc \<Rightarrow>
   irtkGenericImage \<Rightarrow> irtkGenericImage \<Rightarrow> irtkGenericImage \<Rightarrow>
   ('f \<times> 'g) \<times> 'm \<Rightarrow> (error + 'm) option" where
  "ForEachVoxelIf_vp D F G im1 im2 im3 s =
     (if IsReduction F \<or> IsReduction G
      then Some (Inl irtkforeachternaryvoxelfunction_must_not_be_reduction)
      else map_option (map_sum id snd) (ForEachVoxelIf_r D F G im1 im2 im3 s))"

definition ForEachVoxelIf_attr_r ::
  "'m Domain \<Rightarrow> ('f, 'm) VoxelFunc \<Rightarrow> ('g, 'm) VoxelFunc \<Rightarrow> irtkImageAttributes \<Rightarrow>
   irtkGenericImage \<Rightarrow> irtkGenericImage \<Rightarrow> irtkGenericImage \<Rightarrow>
   ('f \<times> 'g) \<times> 'm \<Rightarrow> ('f \<times> 'g) \<times> 'm" where
  "ForEachVoxelIf_attr_r D F G A im1 im2 im3 s =
     (case ifbody_attr D F G im1 im2 im3 A s of (b, m) \<Rightarrow> join_both F G b (fst s, m))"

definition ForEachVoxelIf_re1_r ::
  "'m Domain \<Rightarrow> ('f, 'm) VoxelFunc \<Rightarrow> ('g, 'm) VoxelFunc \<Rightarrow> blocked_range \<Rightarrow>
   irtkGenericImage \<Rightarrow> irtkGenericImage \<Rightarrow> irtkGenericImage \<Rightarrow>
   ('f \<times> 'g) \<times> 'm \<Rightarrow> ('f \<times> 'g) \<times> 'm" where
  "ForEachVoxelIf_re1_r D F G re im1 im2 im3 s =
     (case ifbody_re1 D F G im1 im2 im3 re s of (b, m) \<Rightarrow> join_both F G b (fst s, m))"

definition ForEachVoxelIf_re2_r ::
  "int \<Rightarrow> int \<Rightarrow> 'm Domain \<Rightarrow> ('f, 'm) VoxelFunc \<Rightarrow> ('g, 'm) VoxelFunc \<Rightarrow>
   blocked_range2d \<Rightarrow> irtkGenericImage \<Rightarrow> irtkGenericImage \<Rightarrow> irtkGenericImage \<Rightarrow>
   ('f \<times> 'g) \<times> 'm \<Rightarrow> ('f \<times> 'g) \<times> 'm" where
  "ForEachVoxelIf_re2_r k0 l0 D F G re im1 im2 im3 s =
     (case ifbody_re2 D F G im1 im2 im3 k0 l0 re s of (b, m) \<Rightarrow> join_both F G b (fst s, m))"

definition ForEachVoxelIf_re3_r ::
  "int \<Rightarrow> 'm Domain \<Rightarrow> ('f, 'm) VoxelFunc \<Rightarrow> ('g, 'm) VoxelFunc \<Rightarrow> blocked_range3d \<Rightarrow>
   irtkGenericImage \<Rightarrow> irtkGenericImage \<Rightarrow> irtkGenericImage \<Rightarrow>
   ('f \<times> 'g) \<times> 'm \<Rightarrow> ('f \<times> 'g) \<times> 'm" where
  "ForEachVoxelIf_re3_r l0 D F G re im1 im2 im3 s =
     (case ifbody_re3 D F G im1 im2 im3 l0 re s of (b, m) \<Rightarrow> join_both F G b (fst s, m))"

text \<open>
  The two overloads with two functors by value and a 3-dimensional range: by reference
  the range is passed on, by pointer it is not.
\<close>

definition ForEachVoxelIf_re3_vr ::
  "int \<Rightarrow> 'm Domain \<Rightarrow> ('f, 'm) VoxelFunc \<Rightarrow> ('g, 'm) VoxelFunc \<Rightarrow> blocked_range3d \<Rightarrow>
   irtkGenericImage \<Rightarrow> irtkGenericImage \<Rightarrow> irtkGenericImage \<Rightarrow>
   ('f \<times> 'g) \<times> 'm \<Rightarrow> (error + 'm) option" where
  "ForEachVoxelIf_re3_vr l0 D F G re im1 im2 im3 s =
     (if IsReduction F \<or> IsReduction G
      then Some (Inl irtkforeachternaryvoxelfunction_must_not_be_reduction)
      else Some (Inr (snd (ForEachVoxelIf_re3_r l0 D F G re im1 im2 im3 s))))"

definition ForEachVoxelIf_re3_vp ::
  "'m Domain \<Rightarrow> ('f, 'm) VoxelFunc \<Rightarrow> ('g, 'm) VoxelFunc \<Rightarrow> blocked_range3d \<Rightarrow>
   irtkGenericImage \<Rightarrow> irtkGenericImage \<Rightarrow> irtkGenericImage \<Rightarrow>
   ('f \<times> 'g) \<times> 'm \<Rightarrow> (error + 'm) option" where
  "ForEachVoxelIf_re3_vp D F G re im1 im2 im3 s =
     (if IsReduction F \<or> IsReduction G
      then Some (Inl irtkforeachternaryvoxelfunction_must_not_be_reduction)
      else map_option (map_sum id snd) (ForEachVoxelIf_r D F G im1 im2 im3 s))"

subsection \<open>The scheduler and the parallel entry points\<close>

text \<open>
  \<open>parallel_for\<close> and \<open>parallel_reduce\<close> belong to the threading library, not to this
  repository, so the parallel entry points take them as a parameter and every statement
  about these entry points holds for every scheduler. \<open>parallel_for re body\<close> gets the
  range and the body (its \<open>operator()\<close> and the state of its functors); it works on
  copies of the body, so the caller sees the memory change only. \<open>parallel_reduce\<close> also
  gets the body's split and join, and leaves the merged result in the body. Each of the
  two is overloaded for the three kinds of range; \<open>parallel_for2\<close>, \<open>parallel_for3\<close>,
  \<open>parallel_reduce2\<close>, \<open>parallel_reduce3\<close> are the ones for 2- and 3-dimensional ranges.
\<close>

record ('b, 'm) Scheduler =
  parallel_for ::
    "blocked_range \<Rightarrow> (blocked_range \<Rightarrow> 'b \<times> 'm \<Rightarrow> 'b \<times> 'm) \<Rightarrow> 'b \<times> 'm \<Rightarrow> 'm"
  parallel_for2 ::
    "blocked_range2d \<Rightarrow> (blocked_range2d \<Rightarrow> 'b \<times> 'm \<Rightarrow> 'b \<times> 'm) \<Rightarrow> 'b \<times> 'm \<Rightarrow> 'm"
  parallel_for3 ::
    "blocked_range3d \<Rightarrow> (blocked_range3d \<Rightarrow> 'b \<times> 'm \<Rightarrow> 'b \<times> 'm) \<Rightarrow> 'b \<times> 'm \<Rightarrow> 'm"
  parallel_reduce ::
    "blocked_range \<Rightarrow> (blocked_range \<Rightarrow> 'b \<times> 'm \<Rightarrow> 'b \<times> 'm) \<Rightarrow>
     ('b \<Rightarrow> 'b \<times> 'm \<Rightarrow> 'b \<times> 'm) \<Rightarrow> ('b \<Rightarrow> 'b \<times> 'm \<Rightarrow> 'b \<times> 'm) \<Rightarrow> 'b \<times> 'm \<Rightarrow> 'b \<times> 'm"
  parallel_reduce2 ::
    "blocked_range2d \<Rightarrow> (blocked_range2d \<Rightarrow> 'b \<times> 'm \<Rightarrow> 'b \<times> 'm) \<Rightarrow>
     ('b \<Rightarrow> 'b \<times> 'm \<Rightarrow> 'b \<times> 'm) \<Rightarrow> ('b \<Rightarrow> 'b \<times> 'm \<Rightarrow> 'b \<times> 'm) \<Rightarrow> 'b \<times> 'm \<Rightarrow> 'b \<times> 'm"
  parallel_reduce3 ::
    "blocked_range3d \<Rightarrow> (blocked_range3d \<Rightarrow> 'b \<times> 'm \<Rightarrow> 'b \<times> 'm) \<Rightarrow>
     ('b \<Rightarrow> 'b \<times> 'm \<Rightarrow> 'b \<times> 'm) \<Rightarrow> ('b \<Rightarrow> 'b \<times> 'm \<Rightarrow> 'b \<times> 'm) \<Rightarrow> 'b \<times> 'm \<Rightarrow> 'b \<times> 'm"

definition serial :: "('b, 'm) Scheduler" where
  \<comment> \<open>The schedule of a single thread that never splits the range: the body is run once
      over the whole range, with nothing to split or join.\<close>
  "serial = \<lparr>parallel_for = (\<lambda>re body s. snd (body re s)),
             parallel_for2 = (\<lambda>re body s. snd (body re s)),
             parallel_for3 = (\<lambda>re body s. snd (body re s)),
             parallel_reduce = (\<lambda>re body split join s. body re s),
             parallel_reduce2 = (\<lambda>re body split join s. body re s),
             parallel_reduce3 = (\<lambda>re body split join s. body re s)\<rparr>"

definition split_both ::
  "('f, 'm) VoxelFunc \<Rightarrow> ('g, 'm) VoxelFunc \<Rightarrow> 'f \<times> 'g \<Rightarrow> ('f \<times> 'g) \<times> 'm \<Rightarrow> ('f \<times> 'g) \<times> 'm" where
  \<comment> \<open>Modelled from the spec: the split constructor of \<open>irtkForEachVoxelIfBody\<close> is
      declared in irtkVoxelFunction.h, which is not among the sources; a split body is
      "a valid independent copy", so each of its two functors is split from the
      original's.\<close>
  "split_both F G b s = on_outside (vf_split G (snd b)) (on_inside (vf_split F (fst b)) s)"

definition ParallelForEachScalar_p ::
  "('f, 'm) Scheduler \<Rightarrow> ('f, 'm) VoxelFunc \<Rightarrow>
   irtkGenericImage \<Rightarrow> irtkGenericImage \<Rightarrow> irtkGenericImage \<Rightarrow> 'f \<times> 'm \<Rightarrow> 'f \<times> 'm" where
  "ParallelForEachScalar_p sch F im1 im2 im3 s =
     (let re = mk_range 0 (GetNumberOfVoxels im3)
      in if IsReduction F
         then (case parallel_reduce sch re (body_re1 F im1 im2 im3) (vf_split F) (vf_join F) s
               of (bf, m) \<Rightarrow> vf_join F bf (fst s, m))
         else (fst s, parallel_for sch re (body_re1 F im1 im2 im3) s))"

definition ParallelForEachScalar_r ::
  "('f, 'm) Scheduler \<Rightarrow> ('f, 'm) VoxelFunc \<Rightarrow>
   irtkGenericImage \<Rightarrow> irtkGenericImage \<Rightarrow> irtkGenericImage \<Rightarrow> 'f \<times> 'm \<Rightarrow> 'f \<times> 'm" where
  "ParallelForEachScalar_r sch F im1 im2 im3 s =
     (let re = mk_range 0 (GetNumberOfVoxels im3)
      in if IsReduction F
         then (case parallel_reduce sch re (body_re1 F im1 im2 im3) (vf_split F) (vf_join F) s
               of (bf, m) \<Rightarrow> vf_join F bf (fst s, m))
         else (fst s, parallel_for sch re (body_re1 F im1 im2 im3) s))"

definition ParallelForEachVoxel_p ::
  "('f, 'm) Scheduler \<Rightarrow> ('f, 'm) VoxelFunc \<Rightarrow>
   irtkGenericImage \<Rightarrow> irtkGenericImage \<Rightarrow> irtkGenericImage \<Rightarrow> 'f \<times> 'm \<Rightarrow> error + 'f \<times> 'm" where
  "ParallelForEachVoxel_p sch F im1 im2 im3 s =
     (if GetTSize im3 \<noteq> 0 then Inr (ParallelForEachScalar_r sch F im1 im2 im3 s)
      else if GetT im3 = 0 then Inl DivisionByZero
      else (let re = mk_range 0 (GetNumberOfVoxels im3 sdiv GetT im3)
            in if IsReduction F
               then (case parallel_reduce sch re (body_re1 F im1 im2 im3) (vf_split F) (vf_join F) s
                     of (bf, m) \<Rightarrow> Inr (vf_join F bf (fst s, m)))
               else Inr (fst s, parallel_for sch re (body_re1 F im1 im2 im3) s)))"

definition ParallelForEachVoxel_r ::
  "('f, 'm) Scheduler \<Rightarrow> ('f, 'm) VoxelFunc \<Rightarrow>
   irtkGenericImage \<Rightarrow> irtkGenericImage \<Rightarrow> irtkGenericImage \<Rightarrow> 'f \<times> 'm \<Rightarrow> error + 'f \<times> 'm" where
  "ParallelForEachVoxel_r sch F im1 im2 im3 s =
     (if GetTSize im3 \<noteq> 0 then Inr (ParallelForEachScalar_r sch F im1 im2 im3 s)
      else if GetT im3 = 0 then Inl DivisionByZero
      else (let re = mk_range 0 (GetNumberOfVoxels im3 sdiv GetT im3)
            in if IsReduction F
               then (case parallel_reduce sch re (body_re1 F im1 im2 im3) (vf_split F) (vf_join F) s
                     of (bf, m) \<Rightarrow> Inr (vf_join F bf (fst s, m)))
               else Inr (fst s, parallel_for sch re (body_re1 F im1 im2 im3) s)))"

definition ParallelForEachVoxel_vp ::
  "('f, 'm) Scheduler \<Rightarrow> ('f, 'm) VoxelFunc \<Rightarrow>
   irtkGenericImage \<Rightarrow> irtkGenericImage \<Rightarrow> irtkGenericImage \<Rightarrow> 'f \<times> 'm \<Rightarrow> error + 'm" where
  "ParallelForEachVoxel_vp sch F im1 im2 im3 s =
     (if IsReduction F then Inl irtkforeachternaryvoxelfunction_must_not_be_reduction
      else map_sum id snd (ParallelForEachVoxel_r sch F im1 im2 im3 s))"

definition ParallelForEachVoxel_re1_r ::
  "('f, 'm) Scheduler \<Rightarrow> ('f, 'm) VoxelFunc \<Rightarrow> blocked_range \<Rightarrow>
   irtkGenericImage \<Rightarrow> irtkGenericImage \<Rightarrow> irtkGenericImage \<Rightarrow> 'f \<times> 'm \<Rightarrow> 'f \<times> 'm" where
  "ParallelForEachVoxel_re1_r sch F re im1 im2 im3 s =
     (if IsReduction F
      then (case parallel_reduce sch re (body_re1 F im1 im2 im3) (vf_split F) (vf_join F) s
            of (bf, m) \<Rightarrow> vf_join F bf (fst s, m))
      else (fst s, parallel_for sch re (body_re1 F im1 im2 im3) s))"

definition ParallelForEachVoxel_re2_r ::
  "int \<Rightarrow> int \<Rightarrow> ('f, 'm) Scheduler \<Rightarrow> ('f, 'm) VoxelFunc \<Rightarrow> blocked_range2d \<Rightarrow>
   irtkGenericImage \<Rightarrow> irtkGenericImage \<Rightarrow> irtkGenericImage \<Rightarrow> 'f \<times> 'm \<Rightarrow> 'f \<times> 'm" where
  "ParallelForEachVoxel_re2_r k0 l0 sch F re im1 im2 im3 s =
     (if IsReduction F
      then (case parallel_reduce2 sch re (body_re2 F im1 im2 im3 k0 l0) (vf_split F) (vf_join F) s
            of (bf, m) \<Rightarrow> vf_join F bf (fst s, m))
      else (fst s, parallel_for2 sch re (body_re2 F im1 im2 im3 k0 l0) s))"

definition ParallelForEachVoxel_re3_r ::
  "int \<Rightarrow> ('f, 'm) Scheduler \<Rightarrow> ('f, 'm) VoxelFunc \<Rightarrow> blocked_range3d \<Rightarrow>
   irtkGenericImage \<Rightarrow> irtkGenericImage \<Rightarrow> irtkGenericImage \<Rightarrow> 'f \<times> 'm \<Rightarrow> 'f \<times> 'm" where
  "ParallelForEachVoxel_re3_r l0 sch F re im1 im2 im3 s =
     (if IsReduction F
      then (case parallel_reduce3 sch re (body_re3 F im1 im2 im3 l0) (vf_split F) (vf_join F) s
            of (bf, m) \<Rightarrow> vf_join F bf (fst s, m))
      else (fst s, parallel_for3 sch re (body_re3 F im1 im2 im3 l0) s))"

text \<open>
  With image attributes the body is run on the 3-dimensional range of the spatial extents,
  once for each value of the body's \<open>_l\<close> from 0 up to \<open>attr._t\<close> when the temporal
  spacing is not zero and once, with \<open>_l\<close> as constructed, when it is zero.
  \<open>parallel_reduce\<close> leaves its result in the one body that all these runs share.
\<close>

definition ParallelForEachVoxel_attr_r ::
  "int \<Rightarrow> ('f, 'm) Scheduler \<Rightarrow> ('f, 'm) VoxelFunc \<Rightarrow> irtkImageAttributes \<Rightarrow>
   irtkGenericImage \<Rightarrow> irtkGenericImage \<Rightarrow> irtkGenericImage \<Rightarrow> 'f \<times> 'm \<Rightarrow> 'f \<times> 'm" where
  "ParallelForEachVoxel_attr_r l0 sch F A im1 im2 im3 s =
     (let re = mk_range3d 0 (a_z A) 0 (a_y A) 0 (a_x A)
      in if IsReduction F
         then (case (if a_dt A \<noteq> 0
                     then for_loop 0 (a_t A) (\<lambda>l.
                            parallel_reduce3 sch re (body_re3 F im1 im2 im3 l)
                              (vf_split F) (vf_join F)) s
                     else parallel_reduce3 sch re (body_re3 F im1 im2 im3 l0)
                            (vf_split F) (vf_join F) s)
               of (bf, m) \<Rightarrow> vf_join F bf (fst s, m))
         else if a_dt A \<noteq> 0
              then (fst s, for_loop 0 (a_t A) (\<lambda>l m.
                             parallel_for3 sch re (body_re3 F im1 im2 im3 l) (fst s, m)) (snd s))
              else (fst s, parallel_for3 sch re (body_re3 F im1 im2 im3 l0) s))"

text \<open>
  The parallel entry points with two functors ask whether either of them is a reduction,
  and after \<open>parallel_reduce\<close> call the join of both.
\<close>

definition ParallelForEachScalarIf_r ::
  "('f \<times> 'g, 'm) Scheduler \<Rightarrow> 'm Domain \<Rightarrow> ('f, 'm) VoxelFunc \<Rightarrow> ('g, 'm) VoxelFunc \<Rightarrow>
   irtkGenericImage \<Rightarrow> irtkGenericImage \<Rightarrow> irtkGenericImage \<Rightarrow>
   ('f \<times> 'g) \<times> 'm \<Rightarrow> ('f \<times> 'g) \<times> 'm" where
  "ParallelForEachScalarIf_r sch D F G im1 im2 im3 s =
     (let re = mk_range 0 (GetNumberOfVoxels im3)
      in if IsReduction F \<or> IsReduction G
         then (case parallel_reduce sch re (ifbody_re1 D F G im1 im2 im3)
                      (split_both F G) (join_both F G) s
               of (b, m) \<Rightarrow> join_both F G b (fst s, m))
         else (fst s, parallel_for sch re (ifbody_re1 D F G im1 im2 im3) s))"

definition ParallelForEachScalarIf1_r ::
  "('f \<times> unit, 'm) Scheduler \<Rightarrow> 'm Domain \<Rightarrow> ('f, 'm) VoxelFunc \<Rightarrow>
   irtkGenericImage \<Rightarrow> irtkGenericImage \<Rightarrow> irtkGenericImage \<Rightarrow> 'f \<times> 'm \<Rightarrow> 'f \<times> 'm" where
  \<comment> \<open>The form with one functor: the outside-functor is a local \<open>NOP\<close>.\<close>
  "ParallelForEachScalarIf1_r sch D F im1 im2 im3 s =
     (case ParallelForEachScalarIf_r sch D F NOP im1 im2 im3 ((fst s, ()), snd s)
      of ((f, u), m) \<Rightarrow> (f, m))"

definition ParallelForEachVoxelIf_re1_r ::
  "('f \<times> 'g, 'm) Scheduler \<Rightarrow> 'm Domain \<Rightarrow> ('f, 'm) VoxelFunc \<Rightarrow> ('g, 'm) VoxelFunc \<Rightarrow>
   blocked_range \<Rightarrow> irtkGenericImage \<Rightarrow> irtkGenericImage \<Rightarrow> irtkGenericImage \<Rightarrow>
   ('f \<times> 'g) \<times> 'm \<Rightarrow> ('f \<times> 'g) \<times> 'm" where
  "ParallelForEachVoxelIf_re1_r sch D F G re im1 im2 im3 s =
     (if IsReduction F \<or> IsReduction G
      then (case parallel_reduce sch re (ifbody_re1 D F G im1 im2 im3)
                   (split_both F G) (join_both F G) s
            of (b, m) \<Rightarrow> join_both F G b (fst s, m))
      else (fst s, parallel_for sch re (ifbody_re1 D F G im1 im2 im3) s))"

definition ParallelForEachVoxelIf_re2_r ::
  "int \<Rightarrow> int \<Rightarrow> ('f \<times> 'g, 'm) Scheduler \<Rightarrow> 'm Domain \<Rightarrow>
   ('f, 'm) VoxelFunc \<Rightarrow> ('g, 'm) VoxelFunc \<Rightarrow>
   blocked_range2d \<Rightarrow> irtkGenericImage \<Rightarrow> irtkGenericImage \<Rightarrow> irtkGenericImage \<Rightarrow>
   ('f \<times> 'g) \<times> 'm \<Rightarrow> ('f \<times> 'g) \<times> 'm" where
  "ParallelForEachVoxelIf_re2_r k0 l0 sch D F G re im1 im2 im3 s =
     (if IsReduction F \<or> IsReduction G
      then (case parallel_reduce2 sch re (ifbody_re2 D F G im1 im2 im3 k0 l0)
                   (split_both F G) (join_both F G) s
            of (b, m) \<Rightarrow> join_both F G b (fst s, m))
      else (fst s, parallel_for2 sch re (ifbody_re2 D F G im1 im2 im3 k0 l0) s))"

definition ParallelForEachVoxelIf_re3_r ::
  "int \<Rightarrow> ('f \<times> 'g, 'm) Scheduler \<Rightarrow> 'm Domain \<Rightarrow>
   ('f, 'm) VoxelFunc \<Rightarrow> ('g, 'm) VoxelFunc \<Rightarrow>
   blocked_range3d \<Rightarrow> irtkGenericImage \<Rightarrow> irtkGenericImage \<Rightarrow> irtkGenericImage \<Rightarrow>
   ('f \<times> 'g) \<times> 'm \<Rightarrow> ('f \<times> 'g) \<times> 'm" where
  "ParallelForEachVoxelIf_re3_r l0 sch D F G re im1 im2 im3 s =
     (if IsReduction F \<or> IsReduction G
      then (case parallel_reduce3 sch re (ifbody_re3 D F G im1 im2 im3 l0)
                   (split_both F G) (join_both F G) s
            of (b, m) \<Rightarrow> join_both F G b (fst s, m))
      else (fst s, parallel_for3 sch re (ifbody_re3 D F G im1 im2 im3 l0) s))"

definition ParallelForEachVoxelIf_attr_r ::
  "int \<Rightarrow> ('f \<times> 'g, 'm) Scheduler \<Rightarrow> 'm Domain \<Rightarrow>
   ('f, 'm) VoxelFunc \<Rightarrow> ('g, 'm) VoxelFunc \<Rightarrow> irtkImageAttributes \<Rightarrow>
   irtkGenericImage \<Rightarrow> irtkGenericImage \<Rightarrow> irtkGenericImage \<Rightarrow>
   ('f \<times> 'g) \<times> 'm \<Rightarrow> ('f \<times> 'g) \<times> 'm" where
  "ParallelForEachVoxelIf_attr_r l0 sch D F G A im1 im2 im3 s =
     (let re = mk_range3d 0 (a_z A) 0 (a_y A) 0 (a_x A)
      in if IsReduction F \<or> IsReduction G
         then (case (if a_dt A \<noteq> 0
                     then for_loop 0 (a_t A) (\<lambda>l.
                            parallel_reduce3 sch re (ifbody_re3 D F G im1 im2 im3 l)
                              (split_both F G) (join_both F G)) s
                     else parallel_reduce3 sch re (ifbody_re3 D F G im1 im2 im3 l0)
                            (split_both F G) (join_both F G) s)
               of (b, m) \<Rightarrow> join_both F G b (fst s, m))
         else if a_dt A \<noteq> 0
              then (fst s, for_loop 0 (a_t A) (\<lambda>l m.
                             parallel_for3 sch re (ifbody_re3 D F G im1 im2 im3 l) (fst s, m)) (snd s))
              else (fst s, parallel_for3 sch re (ifbody_re3 D F G im1 im2 im3 l0) s))"

text \<open>
  Without a range, the overload with the images by reference calls itself where
  \<open>ParallelForEachVoxel\<close> calls \<open>ParallelForEachScalar\<close>, and the one by pointer calls the
  one by reference.
\<close>

partial_function (option) ParallelForEachVoxelIf_r ::
  "('f \<times> 'g, 'm) Scheduler \<Rightarrow> 'm Domain \<Rightarrow> ('f, 'm) VoxelFunc \<Rightarrow> ('g, 'm) VoxelFunc \<Rightarrow>
   irtkGenericImage \<Rightarrow> irtkGenericImage \<Rightarrow> irtkGenericImage \<Rightarrow>
   ('f \<times> 'g) \<times> 'm \<Rightarrow> (error + ('f \<times> 'g) \<times> 'm) option" where
  "ParallelForEachVoxelIf_r sch D F G im1 im2 im3 s =
     (if GetTSize im3 \<noteq> 0 then ParallelForEachVoxelIf_r sch D F G im1 im2 im3 s
      else if GetT im3 = 0 then Some (Inl DivisionByZero)
      else (let re = mk_range 0 (GetNumberOfVoxels im3 sdiv GetT im3)
            in if IsReduction F \<or> IsReduction G
               then (case parallel_reduce sch re (ifbody_re1 D F G im1 im2 im3)
                            (split_both F G) (join_both F G) s
                     of (b, m) \<Rightarrow> Some (Inr (join_both F G b (fst s, m))))
               else Some (Inr (fst s, parallel_for sch re (ifbody_re1 D F G im1 im2 im3) s))))"

definition ParallelForEachVoxelIf_p ::
  "('f \<times> 'g, 'm) Scheduler \<Rightarrow> 'm Domain \<Rightarrow> ('f, 'm) VoxelFunc \<Rightarrow> ('g, 'm) VoxelFunc \<Rightarrow>
   irtkGenericImage \<Rightarrow> irtkGenericImage \<Rightarrow> irtkGenericImage \<Rightarrow>
   ('f \<times> 'g) \<times> 'm \<Rightarrow> (error + ('f \<times> 'g) \<times> 'm) option" where
  "ParallelForEachVoxelIf_p sch D F G im1 im2 im3 s =
     (if GetTSize im3 \<noteq> 0 then ParallelForEachVoxelIf_r sch D F G im1 im2 im3 s
      else if GetT im3 = 0 then Some (Inl DivisionByZero)
      else (let re = mk_range 0 (GetNumberOfVoxels im3 sdiv GetT im3)
            in if IsReduction F \<or> IsReduction G
               then (case parallel_reduce sch re (ifbody_re1 D F G im1 im2 im3)
                            (split_both F G) (join_both F G) s
                     of (b, m) \<Rightarrow> Some (Inr (join_both F G b (fst s, m))))
               else Some (Inr (fst s, parallel_for sch re (ifbody_re1 D F G im1 im2 im3) s))))"

subsection \<open>A functor and a domain for observing a traversal\<close>

text \<open>
  The recording functor appends every call it receives, with all the arguments, to a log
  kept in the shared memory, tagged with the role it plays in the traversal. It is used to
  evaluate the traversals on concrete images.
\<close>

datatype role = InsideFunc | OutsideFunc

datatype event =
  Call4 role int int int int ptr ptr ptr
  | CallI role irtkGenericImage int ptr ptr ptr
  | Split role
  | Join role

definition recorder :: "role \<Rightarrow> bool \<Rightarrow> (unit, event list) VoxelFunc" where
  "recorder w red =
     \<lparr>IsReduction = red,
      call4 = (\<lambda>i j k l p1 p2 p3 s. (fst s, snd s @ [Call4 w i j k l p1 p2 p3])),
      calli = (\<lambda>im idx p1 p2 p3 s. (fst s, snd s @ [CallI w im idx p1 p2 p3])),
      vf_split = (\<lambda>other s. (fst s, snd s @ [Split w])),
      vf_join = (\<lambda>other s. (fst s, snd s @ [Join w]))\<rparr>"

definition Always :: "'m Domain" where
  \<comment> \<open>Modelled from the spec: the domains are declared in irtkVoxelDomain.h, which is not
      among the sources; \<open>Always\<close> "returns true unconditionally".\<close>
  "Always = \<lparr>IsInside4 = (\<lambda>im i j k l p m. True), IsInsidei = (\<lambda>im idx p m. True)\<rparr>"

definition image :: "int \<Rightarrow> int \<Rightarrow> int \<Rightarrow> int \<Rightarrow> real \<Rightarrow> nat \<Rightarrow> irtkGenericImage" where
  \<comment> \<open>An image of the given extents and temporal spacing with its buffer; it reports
      empty when an extent is below 1.\<close>
  "image x y z t dt b =
     \<lparr>attr = \<lparr>a_x = x, a_y = y, a_z = z, a_t = t, a_dt = dt\<rparr>,
      is_empty = (x < 1 \<or> y < 1 \<or> z < 1 \<or> t < 1), buffer = b\<rparr>"

subsection \<open>The predicate-restricted call, in the words of the specification\<close>

definition spec_select ::
  "'m Domain \<Rightarrow> irtkGenericImage \<Rightarrow> ('f, 'm) VoxelFunc \<Rightarrow> ('g, 'm) VoxelFunc \<Rightarrow>
   ('f \<times> 'g, 'm) VoxelFunc" where
  \<comment> \<open>From the specification, not the source: "test the domain predicate against the
      last (highest-index) image argument; if it holds, invoke the inside-functor, else
      invoke the outside-functor with identical arguments". This is the pair of the two
      functors as one functor that does so at each call, testing the image \<open>im\<close> and the
      third pointer; a plain traversal with it is what the If traversals are compared
      with.\<close>
  "spec_select D im F G =
     \<lparr>IsReduction = (IsReduction F \<or> IsReduction G),
      call4 = (\<lambda>i j k l p1 p2 p3 s.
        if IsInside4 D im i j k l p3 (snd s)
        then on_inside (call4 F i j k l p1 p2 p3) s
        else on_outside (call4 G i j k l p1 p2 p3) s),
      calli = (\<lambda>im' idx p1 p2 p3 s.
        if IsInsidei D im idx p3 (snd s)
        then on_inside (calli F im' idx p1 p2 p3) s
        else on_outside (calli G im' idx p1 p2 p3) s),
      vf_split = split_both F G,
      vf_join = join_both F G\<rparr>"

section \<open>Properties\<close>

subsection \<open>Loops as folds\<close>

lemma for_loop_upto: "for_loop b e body s = foldl (\<lambda>s v. body v s) s [b..e - 1]"
proof (induction b e body s rule: for_loop.induct)
  case (1 v e body s)
  show ?case
  proof (cases "v < e")
    case True
    then have "[v..e - 1] = v # [v + 1..e - 1]" by (simp add: upto_rec1)
    with True 1 show ?thesis by (subst for_loop.simps) simp
  next
    case False
    then show ?thesis by (subst for_loop.simps) simp
  qed
qed

lemma foldl_concat: "foldl f s (concat xss) = foldl (\<lambda>s xs. foldl f s xs) s xss"
  by (induction xss arbitrary: s) simp_all

lemma coords_product:
  "[(i, j, k, l). l \<leftarrow> ts, k \<leftarrow> zs, j \<leftarrow> ys, i \<leftarrow> xs] =
   map (\<lambda>(l, k, j, i). (i, j, k, l)) (List.product ts (List.product zs (List.product ys xs)))"
  by (simp add: product_concat_map map_concat comp_def)

lemma distinct_coords:
  assumes "distinct xs" "distinct ys" "distinct zs" "distinct ts"
  shows "distinct [(i, j, k, l). l \<leftarrow> ts, k \<leftarrow> zs, j \<leftarrow> ys, i \<leftarrow> xs]"
  unfolding coords_product
  using assms by (auto simp: distinct_map distinct_product inj_on_def)

lemma set_coords:
  "set [(i, j, k, l). l \<leftarrow> ts, k \<leftarrow> zs, j \<leftarrow> ys, i \<leftarrow> xs] =
   {(i, j, k, l). i \<in> set xs \<and> j \<in> set ys \<and> k \<in> set zs \<and> l \<in> set ts}"
  by auto

lemma body_attr_flat:
  "body_attr F im1 im2 im3 A s =
     snd (foldl (\<lambda>(c, s) (i, j, k, l).
                  (advance 1 c, case c of (p1, p2, p3) \<Rightarrow> call4 F i j k l p1 p2 p3 s))
            ((start im1, start im2, start im3), s)
            [(i, j, k, l). l \<leftarrow> [0..(if a_dt A \<noteq> 0 then a_t A else 1) - 1],
                           k \<leftarrow> [0..a_z A - 1], j \<leftarrow> [0..a_y A - 1], i \<leftarrow> [0..a_x A - 1]])"
  unfolding body_attr_def Let_def
  apply (simp only: for_loop_upto foldl_concat foldl_map)
  apply (simp add: case_prod_beta)
  done

subsection \<open>Traversal of a whole domain\<close>

text \<open>
  Claim C2. For image attributes \<open>A\<close>, let \<open>T\<close> be \<open>_t\<close> when the temporal spacing \<open>_dt\<close>
  is not zero and 1 otherwise. The traversal of the whole domain is one pass over the
  coordinates \<open>(i, j, k, l)\<close> with \<open>l\<close> from 0 to \<open>T - 1\<close> outermost, then \<open>k\<close>, then \<open>j\<close>, and
  \<open>i\<close> innermost: at each coordinate the functor's call with four coordinates is made once,
  with the three cursors as they are, and then every cursor moves on by one voxel. The
  coordinates of the pass are pairwise different and are exactly those with
  \<open>0 \<le> i < _x\<close>, \<open>0 \<le> j < _y\<close>, \<open>0 \<le> k < _z\<close>, \<open>0 \<le> l < T\<close>: no voxel is skipped and
  none is visited twice. This holds for every functor and every three images.
\<close>

theorem whole_domain_once_per_coordinate:
  "(let T = (if a_dt A \<noteq> 0 then a_t A else 1);
        coords = [(i, j, k, l). l \<leftarrow> [0..T - 1], k \<leftarrow> [0..a_z A - 1],
                                j \<leftarrow> [0..a_y A - 1], i \<leftarrow> [0..a_x A - 1]]
    in body_attr F im1 im2 im3 A s =
         snd (foldl (\<lambda>(c, s) (i, j, k, l).
                      (advance 1 c, case c of (p1, p2, p3) \<Rightarrow> call4 F i j k l p1 p2 p3 s))
                ((start im1, start im2, start im3), s) coords)
       \<and> distinct coords
       \<and> set coords = {(i, j, k, l). 0 \<le> i \<and> i < a_x A \<and> 0 \<le> j \<and> j < a_y A \<and>
                                      0 \<le> k \<and> k < a_z A \<and> 0 \<le> l \<and> l < T})"
  unfolding Let_def
proof (intro conjI)
  let ?T = "if a_dt A \<noteq> 0 then a_t A else 1"
  let ?coords = "[(i, j, k, l). l \<leftarrow> [0..?T - 1], k \<leftarrow> [0..a_z A - 1],
                                j \<leftarrow> [0..a_y A - 1], i \<leftarrow> [0..a_x A - 1]]"
  show "body_attr F im1 im2 im3 A s =
         snd (foldl (\<lambda>(c, s) (i, j, k, l).
                      (advance 1 c, case c of (p1, p2, p3) \<Rightarrow> call4 F i j k l p1 p2 p3 s))
                ((start im1, start im2, start im3), s) ?coords)"
    by (rule body_attr_flat)
  show "distinct ?coords"
    by (rule distinct_coords) simp_all
  show "set ?coords = {(i, j, k, l). 0 \<le> i \<and> i < a_x A \<and> 0 \<le> j \<and> j < a_y A \<and>
                                      0 \<le> k \<and> k < a_z A \<and> 0 \<le> l \<and> l < ?T}"
    unfolding set_coords by auto
qed

text \<open>
  The theorem at a domain of 2 x 2 x 1 voxels and one time point, with the recording
  functor: four calls, \<open>x\<close> running fastest, every cursor one voxel further at each call.
\<close>

theorem whole_domain_once_per_coordinate_witness:
  "snd (body_attr (recorder InsideFunc False)
          (image 2 2 1 1 1 1) (image 2 2 1 1 1 2) (image 2 2 1 1 1 3)
          \<lparr>a_x = 2, a_y = 2, a_z = 1, a_t = 1, a_dt = 1\<rparr> ((), [])) =
   [Call4 InsideFunc 0 0 0 0 (Ptr (Some 1) 0) (Ptr (Some 2) 0) (Ptr (Some 3) 0),
    Call4 InsideFunc 1 0 0 0 (Ptr (Some 1) 1) (Ptr (Some 2) 1) (Ptr (Some 3) 1),
    Call4 InsideFunc 0 1 0 0 (Ptr (Some 1) 2) (Ptr (Some 2) 2) (Ptr (Some 3) 2),
    Call4 InsideFunc 1 1 0 0 (Ptr (Some 1) 3) (Ptr (Some 2) 3) (Ptr (Some 3) 3)]"
  by (simp add: conjunct1 [OF whole_domain_once_per_coordinate [unfolded Let_def]]
        recorder_def image_def start_def IsEmpty_def GetPointerToVoxels_def
        advance_def ptr_add_def upto.simps)

subsection \<open>Traversal of a linear range\<close>

lemma body_re1_flat:
  "body_re1 F im1 im2 im3 re s =
     snd (foldl (\<lambda>(c, s) idx.
                  (advance 1 c, case c of (p1, p2, p3) \<Rightarrow> calli F im3 idx p1 p2 p3 s))
            ((start_from im1 (r_begin re), start_from im2 (r_begin re),
              start_from im3 (r_begin re)), s)
            [r_begin re..r_end re - 1])"
  unfolding body_re1_def Let_def
  by (simp add: for_loop_upto case_prod_unfold)

lemma ifbody_re1_flat:
  "ifbody_re1 D F G im1 im2 im3 re s =
     snd (foldl (\<lambda>(c, s) idx.
                  (advance 1 c,
                   case c of (p1, p2, p3) \<Rightarrow>
                     if IsInsidei D im3 idx p3 (snd s)
                     then on_inside (calli F im3 idx p1 p2 p3) s
                     else on_outside (calli G im3 idx p1 p2 p3) s))
            ((start_from im1 (r_begin re), start_from im2 (r_begin re),
              start_from im3 (r_begin re)), s)
            [r_begin re..r_end re - 1])"
  unfolding ifbody_re1_def Let_def
  by (simp add: for_loop_upto case_prod_unfold)

text \<open>
  Claim C10. The traversal of a linear range, plain or predicated, is one pass over the
  flat indices from the range's begin up to its end in increasing order; at each index the
  functor's call with an image and a flat index gets the third image \<open>im3\<close> as its image
  argument (in the predicated traversal the predicate is asked about \<open>im3\<close> too, and both
  functors get \<open>im3\<close>). The sequential entry points for a linear range run this pass and
  then join; the parallel ones hand the same body to the scheduler, which can only run it
  on ranges.
\<close>

theorem linear_range_last_image_increasing:
  "(let b = r_begin re; e = r_end re;
        c0 = (start_from im1 b, start_from im2 b, start_from im3 b);
        plain = (\<lambda>s. snd (foldl (\<lambda>(c, s) idx.
                   (advance 1 c, case c of (p1, p2, p3) \<Rightarrow> calli F im3 idx p1 p2 p3 s))
                 (c0, s) [b..e - 1]));
        pred = (\<lambda>t. snd (foldl (\<lambda>(c, s) idx.
                   (advance 1 c,
                    case c of (p1, p2, p3) \<Rightarrow>
                      if IsInsidei D im3 idx p3 (snd s)
                      then on_inside (calli F im3 idx p1 p2 p3) s
                      else on_outside (calli G im3 idx p1 p2 p3) s))
                 (c0, t) [b..e - 1]))
    in body_re1 F im1 im2 im3 re s = plain s
       \<and> ifbody_re1 D F G im1 im2 im3 re t = pred t
       \<and> ForEachVoxel_re1_r F re im1 im2 im3 s =
           (case plain s of (bf, m) \<Rightarrow> vf_join F bf (fst s, m))
       \<and> ForEachVoxelIf_re1_r D F G re im1 im2 im3 t =
           (case pred t of (bfg, m) \<Rightarrow> join_both F G bfg (fst t, m))
       \<and> sorted_wrt (<) [b..e - 1])"
  unfolding Let_def
  by (simp add: body_re1_flat ifbody_re1_flat ForEachVoxel_re1_r_def ForEachVoxelIf_re1_r_def
        sorted_wrt_upto)

text \<open>
  The theorem on the range [1, 3) of three different images: the two calls name the third
  image, with indices 1 and 2 in this order.
\<close>

theorem linear_range_last_image_increasing_witness:
  "snd (ForEachVoxel_re1_r (recorder InsideFunc False) (mk_range 1 3)
          (image 2 2 1 1 1 1) (image 2 2 1 1 1 2) (image 2 2 1 1 1 3) ((), [])) =
   [CallI InsideFunc (image 2 2 1 1 1 3) 1 (Ptr (Some 1) 1) (Ptr (Some 2) 1) (Ptr (Some 3) 1),
    CallI InsideFunc (image 2 2 1 1 1 3) 2 (Ptr (Some 1) 2) (Ptr (Some 2) 2) (Ptr (Some 3) 2),
    Join InsideFunc]"
  by (simp add: linear_range_last_image_increasing [unfolded Let_def, THEN conjunct2, THEN conjunct2, THEN conjunct1]
        mk_range_def recorder_def image_def start_from_def IsEmpty_def GetPointerToVoxels_def
        advance_def ptr_add_def upto.simps)

subsection \<open>Predicate-restricted traversal\<close>

text \<open>
  Claim C6. Each of the four predicated traversals (whole domain, linear, 2-dimensional and
  3-dimensional range) is the plain traversal of the same images and region with, at each
  visited voxel, the test of the domain predicate on the third image \<open>im3\<close> and the third
  pointer \<open>p3\<close>: the inside-functor is called where it holds and the outside-functor
  otherwise, with the same arguments. The cursors are those of the plain traversal, so they
  move the same way whatever the predicate answers.
\<close>

theorem if_traversal_selects_functor:
  "ifbody_attr D F G im1 im2 im3 A s = body_attr (spec_select D im3 F G) im1 im2 im3 A s
   \<and> ifbody_re1 D F G im1 im2 im3 re1 s = body_re1 (spec_select D im3 F G) im1 im2 im3 re1 s
   \<and> ifbody_re2 D F G im1 im2 im3 k l re2 s =
       body_re2 (spec_select D im3 F G) im1 im2 im3 k l re2 s
   \<and> ifbody_re3 D F G im1 im2 im3 l re3 s =
       body_re3 (spec_select D im3 F G) im1 im2 im3 l re3 s
   \<and> ForEachVoxelIf_attr_r D F G A im1 im2 im3 s =
       ForEachVoxel_attr_r (spec_select D im3 F G) A im1 im2 im3 s
   \<and> ForEachVoxelIf_re1_r D F G re1 im1 im2 im3 s =
       ForEachVoxel_re1_r (spec_select D im3 F G) re1 im1 im2 im3 s
   \<and> ForEachVoxelIf_re2_r k l D F G re2 im1 im2 im3 s =
       ForEachVoxel_re2_r k l (spec_select D im3 F G) re2 im1 im2 im3 s
   \<and> ForEachVoxelIf_re3_r l D F G re3 im1 im2 im3 s =
       ForEachVoxel_re3_r l (spec_select D im3 F G) re3 im1 im2 im3 s"
  by (simp add: ifbody_attr_def body_attr_def ifbody_re1_def body_re1_def
        ifbody_re2_def body_re2_def ifbody_re3_def body_re3_def
        ForEachVoxelIf_attr_r_def ForEachVoxel_attr_r_def
        ForEachVoxelIf_re1_r_def ForEachVoxel_re1_r_def
        ForEachVoxelIf_re2_r_def ForEachVoxel_re2_r_def
        ForEachVoxelIf_re3_r_def ForEachVoxel_re3_r_def spec_select_def)

text \<open>
  The theorem on a row of three voxels with the predicate \<open>2 \<le> x\<close>: the outside-functor
  is called at \<open>x = 0\<close> and \<open>x = 1\<close>, the inside-functor at \<open>x = 2\<close>.
\<close>

theorem if_traversal_selects_functor_witness:
  "snd (ifbody_attr \<lparr>IsInside4 = (\<lambda>im i j k l p m. 2 \<le> i), IsInsidei = (\<lambda>im idx p m. True)\<rparr>
          (recorder InsideFunc False) (recorder OutsideFunc False)
          (image 3 1 1 1 1 1) (image 3 1 1 1 1 2) (image 3 1 1 1 1 3)
          \<lparr>a_x = 3, a_y = 1, a_z = 1, a_t = 1, a_dt = 1\<rparr> (((), ()), [])) =
   [Call4 OutsideFunc 0 0 0 0 (Ptr (Some 1) 0) (Ptr (Some 2) 0) (Ptr (Some 3) 0),
    Call4 OutsideFunc 1 0 0 0 (Ptr (Some 1) 1) (Ptr (Some 2) 1) (Ptr (Some 3) 1),
    Call4 InsideFunc 2 0 0 0 (Ptr (Some 1) 2) (Ptr (Some 2) 2) (Ptr (Some 3) 2)]"
  by (simp add: if_traversal_selects_functor [THEN conjunct1]
        body_attr_def for_loop.simps spec_select_def on_inside_def on_outside_def
        recorder_def image_def start_def IsEmpty_def GetPointerToVoxels_def
        advance_def ptr_add_def)

subsection \<open>Domains without time points\<close>

lemma ifbody_attr_flat:
  "ifbody_attr D F G im1 im2 im3 A s =
     snd (foldl (\<lambda>(c, s) (i, j, k, l).
                  (advance 1 c,
                   case c of (p1, p2, p3) \<Rightarrow>
                     if IsInside4 D im3 i j k l p3 (snd s)
                     then on_inside (call4 F i j k l p1 p2 p3) s
                     else on_outside (call4 G i j k l p1 p2 p3) s))
            ((start im1, start im2, start im3), s)
            [(i, j, k, l). l \<leftarrow> [0..(if a_dt A \<noteq> 0 then a_t A else 1) - 1],
                           k \<leftarrow> [0..a_z A - 1], j \<leftarrow> [0..a_y A - 1], i \<leftarrow> [0..a_x A - 1]])"
  unfolding ifbody_attr_def Let_def
  apply (simp only: for_loop_upto foldl_concat foldl_map)
  apply (simp add: case_prod_beta cong: if_cong)
  done

lemma set_spatial:
  "set [(i, j, k, l). k \<leftarrow> [0..z - 1], j \<leftarrow> [0..y - 1], i \<leftarrow> [0..x - 1]] =
   {(i, j, k, l'). 0 \<le> i \<and> i < x \<and> 0 \<le> j \<and> j < y \<and> 0 \<le> k \<and> k < z \<and> l' = l}"
  using set_coords [of "[0..x - 1]" "[0..y - 1]" "[0..z - 1]" "[l]"] by auto

lemma distinct_spatial:
  "distinct [(i, j, k, l). k \<leftarrow> [0..z - 1], j \<leftarrow> [0..y - 1], i \<leftarrow> [0..x - 1]]"
  using distinct_coords [of "[0..x - 1]" "[0..y - 1]" "[0..z - 1]" "[l]"] by simp

text \<open>
  Claim C9 says that a domain with \<open>_t = 0\<close> is traversed as if \<open>_t\<close> were 1. The
  number of temporal iterations is \<open>attr._dt ? attr._t : 1\<close>: with a temporal spacing
  other than zero and \<open>_t = 0\<close> there is no iteration at all. On a domain of one spatial
  voxel with \<open>_t = 0\<close> and \<open>_dt = 1\<close> the functor is not called.
\<close>

theorem zero_time_points_counterexample:
  "a_t \<lparr>a_x = 1, a_y = 1, a_z = 1, a_t = 0, a_dt = 1\<rparr> = 0
   \<and> snd (body_attr (recorder InsideFunc False)
            (image 1 1 1 1 1 1) (image 1 1 1 1 1 2) (image 1 1 1 1 1 3)
            \<lparr>a_x = 1, a_y = 1, a_z = 1, a_t = 0, a_dt = 1\<rparr> ((), [])) = []"
  by (simp add: body_attr_def for_loop.simps)

text \<open>
  Claim C9 as amended. The number of temporal iterations of the traversal of a whole
  domain, plain or predicated, is \<open>_t\<close> when the temporal spacing is not zero and 1 when
  it is zero. With a spacing of zero the traversal is one pass over the spatial voxels
  \<open>(i, j, k)\<close> with \<open>l = 0\<close>, whatever \<open>_t\<close> is (0 included): it is the traversal of
  the domain with \<open>_t = 1\<close>. With a spacing other than zero it is the passes over the
  spatial voxels for \<open>l = 0, ..., _t - 1\<close> one after the other, \<open>_t\<close> of them, and none at
  all when \<open>_t\<close> is 0 (or less): then the functor is never called. Each pass calls the
  functor (in the predicated traversal, the functor that the predicate selects) once at
  each spatial voxel of the domain: its coordinates are pairwise different and are exactly
  those with \<open>0 \<le> i < _x\<close>, \<open>0 \<le> j < _y\<close>, \<open>0 \<le> k < _z\<close>.
\<close>

theorem temporal_iterations_by_spacing:
  "(let c0 = (start im1, start im2, start im3);
        call = (\<lambda>(c, s) (i, j, k, l).
                  (advance 1 c, case c of (p1, p2, p3) \<Rightarrow> call4 F i j k l p1 p2 p3 s));
        callIf = (\<lambda>(c, t) (i, j, k, l).
                  (advance 1 c,
                   case c of (p1, p2, p3) \<Rightarrow>
                     if IsInside4 D im3 i j k l p3 (snd t)
                     then on_inside (call4 F' i j k l p1 p2 p3) t
                     else on_outside (call4 G i j k l p1 p2 p3) t));
        spatial = (\<lambda>l. [(i, j, k, l). k \<leftarrow> [0..a_z A - 1], j \<leftarrow> [0..a_y A - 1],
                                       i \<leftarrow> [0..a_x A - 1]])
    in (a_dt A = 0 \<longrightarrow>
          body_attr F im1 im2 im3 A s = snd (foldl call (c0, s) (spatial 0))
          \<and> ifbody_attr D F' G im1 im2 im3 A t = snd (foldl callIf (c0, t) (spatial 0))
          \<and> body_attr F im1 im2 im3 A s = body_attr F im1 im2 im3 (A\<lparr>a_t := 1\<rparr>) s
          \<and> ifbody_attr D F' G im1 im2 im3 A t =
              ifbody_attr D F' G im1 im2 im3 (A\<lparr>a_t := 1\<rparr>) t)
       \<and> (a_dt A \<noteq> 0 \<longrightarrow>
          body_attr F im1 im2 im3 A s =
            snd (foldl call (c0, s) (concat (map spatial [0..a_t A - 1])))
          \<and> ifbody_attr D F' G im1 im2 im3 A t =
            snd (foldl callIf (c0, t) (concat (map spatial [0..a_t A - 1]))))
       \<and> (a_dt A \<noteq> 0 \<and> a_t A \<le> 0 \<longrightarrow>
          body_attr F im1 im2 im3 A s = s \<and> ifbody_attr D F' G im1 im2 im3 A t = t)
       \<and> length [0..a_t A - 1] = nat (a_t A)
       \<and> distinct (spatial l)
       \<and> set (spatial l) = {(i, j, k, l'). 0 \<le> i \<and> i < a_x A \<and> 0 \<le> j \<and> j < a_y A \<and>
                                             0 \<le> k \<and> k < a_z A \<and> l' = l})"
  unfolding Let_def
proof (intro conjI impI)
  assume z: "a_dt A = 0"
  show "body_attr F im1 im2 im3 A s =
        snd (foldl (\<lambda>(c, s) (i, j, k, l).
                  (advance 1 c, case c of (p1, p2, p3) \<Rightarrow> call4 F i j k l p1 p2 p3 s))
              ((start im1, start im2, start im3), s)
              [(i, j, k, 0). k \<leftarrow> [0..a_z A - 1], j \<leftarrow> [0..a_y A - 1], i \<leftarrow> [0..a_x A - 1]])"
    unfolding body_attr_flat using z by simp
  show "ifbody_attr D F' G im1 im2 im3 A t =
        snd (foldl (\<lambda>(c, t) (i, j, k, l).
                  (advance 1 c,
                   case c of (p1, p2, p3) \<Rightarrow>
                     if IsInside4 D im3 i j k l p3 (snd t)
                     then on_inside (call4 F' i j k l p1 p2 p3) t
                     else on_outside (call4 G i j k l p1 p2 p3) t))
              ((start im1, start im2, start im3), t)
              [(i, j, k, 0). k \<leftarrow> [0..a_z A - 1], j \<leftarrow> [0..a_y A - 1], i \<leftarrow> [0..a_x A - 1]])"
    unfolding ifbody_attr_flat using z by simp
  show "body_attr F im1 im2 im3 A s = body_attr F im1 im2 im3 (A\<lparr>a_t := 1\<rparr>) s"
    using z by (simp add: body_attr_def)
  show "ifbody_attr D F' G im1 im2 im3 A t = ifbody_attr D F' G im1 im2 im3 (A\<lparr>a_t := 1\<rparr>) t"
    using z by (simp add: ifbody_attr_def)
next
  assume n: "a_dt A \<noteq> 0"
  show "body_attr F im1 im2 im3 A s =
        snd (foldl (\<lambda>(c, s) (i, j, k, l).
                  (advance 1 c, case c of (p1, p2, p3) \<Rightarrow> call4 F i j k l p1 p2 p3 s))
              ((start im1, start im2, start im3), s)
              (concat (map (\<lambda>l. [(i, j, k, l). k \<leftarrow> [0..a_z A - 1], j \<leftarrow> [0..a_y A - 1],
                                                i \<leftarrow> [0..a_x A - 1]]) [0..a_t A - 1])))"
    unfolding body_attr_flat using n by simp
  show "ifbody_attr D F' G im1 im2 im3 A t =
        snd (foldl (\<lambda>(c, t) (i, j, k, l).
                  (advance 1 c,
                   case c of (p1, p2, p3) \<Rightarrow>
                     if IsInside4 D im3 i j k l p3 (snd t)
                     then on_inside (call4 F' i j k l p1 p2 p3) t
                     else on_outside (call4 G i j k l p1 p2 p3) t))
              ((start im1, start im2, start im3), t)
              (concat (map (\<lambda>l. [(i, j, k, l). k \<leftarrow> [0..a_z A - 1], j \<leftarrow> [0..a_y A - 1],
                                                i \<leftarrow> [0..a_x A - 1]]) [0..a_t A - 1])))"
    unfolding ifbody_attr_flat using n by simp
next
  assume "a_dt A \<noteq> 0 \<and> a_t A \<le> 0"
  then show "body_attr F im1 im2 im3 A s = s" "ifbody_attr D F' G im1 im2 im3 A t = t"
    by (simp_all add: body_attr_flat ifbody_attr_flat)
next
  show "length [0..a_t A - 1] = nat (a_t A)" by simp
  show "distinct [(i, j, k, l). k \<leftarrow> [0..a_z A - 1], j \<leftarrow> [0..a_y A - 1], i \<leftarrow> [0..a_x A - 1]]"
    by (rule distinct_spatial)
  show "set [(i, j, k, l). k \<leftarrow> [0..a_z A - 1], j \<leftarrow> [0..a_y A - 1], i \<leftarrow> [0..a_x A - 1]] =
        {(i, j, k, l'). 0 \<le> i \<and> i < a_x A \<and> 0 \<le> j \<and> j < a_y A \<and> 0 \<le> k \<and> k < a_z A \<and> l' = l}"
    by (rule set_spatial)
qed

text \<open>
  The theorem with the recording functor: on a row of two voxels with \<open>_t = 0\<close> and
  spacing 0, two calls with \<open>l = 0\<close>; on one voxel with \<open>_t = 2\<close> and spacing 1, two
  calls, with \<open>l = 0\<close> and \<open>l = 1\<close>, in the plain and in the predicated traversal; on a
  row of two voxels with \<open>_t = 0\<close> and spacing 1, no call.
\<close>

theorem temporal_iterations_by_spacing_witness:
  "a_dt \<lparr>a_x = 2, a_y = 1, a_z = 1, a_t = 0, a_dt = 0\<rparr> = 0
   \<and> snd (body_attr (recorder InsideFunc False)
          (image 2 1 1 1 0 1) (image 2 1 1 1 0 2) (image 2 1 1 1 0 3)
          \<lparr>a_x = 2, a_y = 1, a_z = 1, a_t = 0, a_dt = 0\<rparr> ((), [])) =
     [Call4 InsideFunc 0 0 0 0 (Ptr (Some 1) 0) (Ptr (Some 2) 0) (Ptr (Some 3) 0),
      Call4 InsideFunc 1 0 0 0 (Ptr (Some 1) 1) (Ptr (Some 2) 1) (Ptr (Some 3) 1)]
   \<and> a_dt \<lparr>a_x = 1, a_y = 1, a_z = 1, a_t = 2, a_dt = 1\<rparr> \<noteq> 0
   \<and> snd (body_attr (recorder InsideFunc False)
          (image 1 1 1 2 1 1) (image 1 1 1 2 1 2) (image 1 1 1 2 1 3)
          \<lparr>a_x = 1, a_y = 1, a_z = 1, a_t = 2, a_dt = 1\<rparr> ((), [])) =
     [Call4 InsideFunc 0 0 0 0 (Ptr (Some 1) 0) (Ptr (Some 2) 0) (Ptr (Some 3) 0),
      Call4 InsideFunc 0 0 0 1 (Ptr (Some 1) 1) (Ptr (Some 2) 1) (Ptr (Some 3) 1)]
   \<and> snd (ifbody_attr Always (recorder InsideFunc False) (recorder OutsideFunc False)
          (image 1 1 1 2 1 1) (image 1 1 1 2 1 2) (image 1 1 1 2 1 3)
          \<lparr>a_x = 1, a_y = 1, a_z = 1, a_t = 2, a_dt = 1\<rparr> (((), ()), [])) =
     [Call4 InsideFunc 0 0 0 0 (Ptr (Some 1) 0) (Ptr (Some 2) 0) (Ptr (Some 3) 0),
      Call4 InsideFunc 0 0 0 1 (Ptr (Some 1) 1) (Ptr (Some 2) 1) (Ptr (Some 3) 1)]
   \<and> a_t \<lparr>a_x = 2, a_y = 1, a_z = 1, a_t = 0, a_dt = 1\<rparr> \<le> 0
   \<and> body_attr (recorder InsideFunc False)
          (image 2 1 1 1 1 1) (image 2 1 1 1 1 2) (image 2 1 1 1 1 3)
          \<lparr>a_x = 2, a_y = 1, a_z = 1, a_t = 0, a_dt = 1\<rparr> ((), []) = ((), [])"
proof -
  let ?A = "\<lparr>a_x = 2, a_y = 1, a_z = 1, a_t = 0, a_dt = 0\<rparr>"
  let ?B = "\<lparr>a_x = 1, a_y = 1, a_z = 1, a_t = 2, a_dt = 1\<rparr>"
  let ?C = "\<lparr>a_x = 2, a_y = 1, a_z = 1, a_t = 0, a_dt = 1\<rparr>"
  have a: "a_dt ?A = 0" by simp
  have b: "a_dt ?B \<noteq> 0" by simp
  have c: "a_dt ?C \<noteq> 0 \<and> a_t ?C \<le> 0" by simp
  note ta = temporal_iterations_by_spacing
    [unfolded Let_def, THEN conjunct1, THEN mp, OF a, THEN conjunct1]
  note tb = temporal_iterations_by_spacing
    [unfolded Let_def, THEN conjunct2, THEN conjunct1, THEN mp, OF b, THEN conjunct1]
  note tb' = temporal_iterations_by_spacing
    [unfolded Let_def, THEN conjunct2, THEN conjunct1, THEN mp, OF b, THEN conjunct2]
  note tc = temporal_iterations_by_spacing
    [unfolded Let_def, THEN conjunct2, THEN conjunct2, THEN conjunct1, THEN mp, OF c,
     THEN conjunct1]
  show ?thesis
    unfolding ta tb tb' tc
    by (simp add: upto.simps Always_def on_inside_def recorder_def image_def start_def
          IsEmpty_def GetPointerToVoxels_def advance_def ptr_add_def)
qed

subsection \<open>Cursors after a number of steps\<close>

lemma advance_advance: "advance a (advance b c) = advance (a + b) c"
  by (cases c) (simp add: advance_def ptr_add_def add.commute)

lemma advance_0: "advance 0 c = c"
  by (cases c) (simp add: advance_def ptr_add_def)

lemma foldl_cursor:
  "foldl (\<lambda>(c, s) v. (advance w c, h v c s)) (c, s) [b..e - 1] =
   (advance (w * (if b \<le> e then e - b else 0)) c,
    foldl (\<lambda>s v. h v (advance (w * (v - b)) c) s) s [b..e - 1])"
proof (induction "nat (e - b)" arbitrary: b c s)
  case 0
  then have "[b..e - 1] = []" by simp
  moreover from 0 have "(if b \<le> e then e - b else 0) = 0" by simp
  ultimately show ?case by (simp add: advance_0)
next
  case (Suc n)
  then have lt: "b < e" by simp
  then have l: "[b..e - 1] = b # [b + 1..e - 1]" by (simp add: upto_rec1)
  from Suc have n: "n = nat (e - (b + 1))" by simp
  have e: "\<And>v. w * (v - (b + 1)) + w = w * (v - b)" by (simp add: algebra_simps)
  from lt have f: "w * (e - (b + 1)) + w = w * (e - b)" by (simp add: algebra_simps)
  show ?case
    using lt by (simp add: l Suc(1) [OF n] advance_advance advance_0 e f)
qed

lemma body_re1_calls:
  "body_re1 F im1 im2 im3 re s =
     foldl (\<lambda>s idx. calli F im3 idx
                      (ptr_add (start_from im1 (r_begin re)) (idx - r_begin re))
                      (ptr_add (start_from im2 (r_begin re)) (idx - r_begin re))
                      (ptr_add (start_from im3 (r_begin re)) (idx - r_begin re)) s)
       s [r_begin re..r_end re - 1]"
  unfolding body_re1_flat
  by (subst foldl_cursor
        [where w = 1 and h = "\<lambda>idx c s. case c of (p1, p2, p3) \<Rightarrow> calli F im3 idx p1 p2 p3 s"])
     (simp add: advance_def)

lemma foldl_record:
  "foldl (\<lambda>s v. ((), snd s @ [ev v])) s xs = ((), snd s @ map ev xs)"
  by (induction xs arbitrary: s) (simp_all add: prod_eq_iff)

lemma body_re1_recorder:
  "body_re1 (recorder w red) im1 im2 im3 re s =
     (fst s, snd s @ map (\<lambda>idx. CallI w im3 idx
                      (ptr_add (start_from im1 (r_begin re)) (idx - r_begin re))
                      (ptr_add (start_from im2 (r_begin re)) (idx - r_begin re))
                      (ptr_add (start_from im3 (r_begin re)) (idx - r_begin re)))
                 [r_begin re..r_end re - 1])"
  unfolding body_re1_calls by (simp add: recorder_def foldl_record)

subsection \<open>Calls that do not return\<close>

lemma ParallelForEachVoxelIf_r_returns:
  "ParallelForEachVoxelIf_r sch D F G im1 im2 im3 s = Some y \<Longrightarrow> GetTSize im3 = 0"
  by (erule ParallelForEachVoxelIf_r.raw_induct
        [where P = "\<lambda>sch D F G im1 im2 im3 s y. GetTSize im3 = 0", rotated])
     (auto split: if_splits)

lemma ForEachVoxelIf_r_returns:
  "ForEachVoxelIf_r D F G im1 im2 im3 s = Some y \<Longrightarrow> GetTSize im3 = 0"
  by (erule ForEachVoxelIf_r.raw_induct
        [where P = "\<lambda>D F G im1 im2 im3 s y. GetTSize im3 = 0", rotated])
     (auto split: if_splits)

lemma siblings_on_time_series:
  "GetTSize im3 \<noteq> 0 \<Longrightarrow>
     ForEachVoxelIf_p D F G im1 im2 im3 s = Inr (ForEachScalarIf_r D F G im1 im2 im3 s)
     \<and> ParallelForEachVoxel_p sch F' im1 im2 im3 t =
         Inr (ParallelForEachScalar_r sch F' im1 im2 im3 t)"
  by (simp add: ForEachVoxelIf_p_def ParallelForEachVoxel_p_def)

lemma ForEachVoxelIf_r_time_series: "GetTSize im3 \<noteq> 0 \<Longrightarrow> ForEachVoxelIf_r D F G im1 im2 im3 s = None"
  using ForEachVoxelIf_r_returns [of D F G im1 im2 im3 s]
  by (cases "ForEachVoxelIf_r D F G im1 im2 im3 s") auto

text \<open>
  Claim C3 says that \<open>ParallelForEachVoxelIf\<close> without a range, on images whose last image
  has a temporal spacing other than zero, terminates and calls one of the two functors once
  per scalar of the last image. In the code the overload with the images by reference
  calls itself with the same arguments in this case (\<open>ParallelForEachVoxelIf\<close> where
  \<open>ParallelForEachVoxel\<close> calls \<open>ParallelForEachScalar\<close>), and the overload by pointer calls
  the one by reference: with any scheduler, domain, functors and images, neither returns.
\<close>

theorem parallel_if_time_series_never_returns:
  "GetTSize im3 \<noteq> 0 \<Longrightarrow>
     ParallelForEachVoxelIf_r sch D F G im1 im2 im3 s = None
     \<and> ParallelForEachVoxelIf_p sch D F G im1 im2 im3 s = None"
proof -
  assume a: "GetTSize im3 \<noteq> 0"
  have "ParallelForEachVoxelIf_r sch D F G im1 im2 im3 s = None"
    using a ParallelForEachVoxelIf_r_returns [of sch D F G im1 im2 im3 s]
    by (cases "ParallelForEachVoxelIf_r sch D F G im1 im2 im3 s") auto
  with a show ?thesis by (simp add: ParallelForEachVoxelIf_p_def)
qed

theorem parallel_if_time_series_never_returns_witness:
  "GetTSize (image 2 1 1 1 1 3) \<noteq> 0
   \<and> ParallelForEachVoxelIf_r serial Always (recorder InsideFunc False) (recorder OutsideFunc False)
       (image 2 1 1 1 1 1) (image 2 1 1 1 1 2) (image 2 1 1 1 1 3) (((), ()), []) = None
   \<and> ParallelForEachVoxelIf_p serial Always (recorder InsideFunc False) (recorder OutsideFunc False)
       (image 2 1 1 1 1 1) (image 2 1 1 1 1 2) (image 2 1 1 1 1 3) (((), ()), []) = None"
proof -
  have h: "GetTSize (image 2 1 1 1 1 3) \<noteq> 0" by (simp add: GetTSize_def image_def)
  show ?thesis using h parallel_if_time_series_never_returns [OF h] by simp
qed

subsection \<open>Functors passed by value\<close>

lemma by_value_guard:
  "IsReduction F \<Longrightarrow>
     ForEachScalar_vp F im1 im2 im3 s = Inl irtkforeachternaryvoxelfunction_must_not_be_reduction
     \<and> ForEachVoxel_vp F im1 im2 im3 s = Inl irtkforeachternaryvoxelfunction_must_not_be_reduction
     \<and> ForEachVoxel_attr_vr F A im1 im2 im3 s = Inl irtkforeachternaryvoxelfunction_must_not_be_reduction
     \<and> ForEachVoxel_re1_vr F re im1 im2 im3 s = Inl irtkforeachternaryvoxelfunction_must_not_be_reduction
     \<and> ParallelForEachVoxel_vp sch F im1 im2 im3 s = Inl irtkforeachternaryvoxelfunction_must_not_be_reduction
     \<and> ForEachScalarIf1_vr D F im1 im2 im3 s = Inl irtkforeachternaryvoxelfunction_must_not_be_reduction"
  by (simp add: ForEachScalar_vp_def ForEachVoxel_vp_def ForEachVoxel_attr_vr_def
        ForEachVoxel_re1_vr_def ParallelForEachVoxel_vp_def ForEachScalarIf1_vr_def)

lemma by_value_guard_if:
  "IsReduction F \<or> IsReduction G \<Longrightarrow>
     ForEachVoxelIf_vp D F G im1 im2 im3 t = Some (Inl irtkforeachternaryvoxelfunction_must_not_be_reduction)
     \<and> ForEachVoxelIf_re3_vr l0 D F G re3 im1 im2 im3 t = Some (Inl irtkforeachternaryvoxelfunction_must_not_be_reduction)
     \<and> ForEachVoxelIf_re3_vp D F G re3 im1 im2 im3 t = Some (Inl irtkforeachternaryvoxelfunction_must_not_be_reduction)"
  by (simp add: ForEachVoxelIf_vp_def ForEachVoxelIf_re3_vr_def ForEachVoxelIf_re3_vp_def)

lemma by_value_delegates:
  "\<not> IsReduction F \<Longrightarrow>
     ForEachScalar_vp F im1 im2 im3 s = Inr (snd (ForEachScalar_r F im1 im2 im3 s))
     \<and> ForEachVoxel_vp F im1 im2 im3 s = map_sum id snd (ForEachVoxel_r F im1 im2 im3 s)
     \<and> ForEachVoxel_attr_vr F A im1 im2 im3 s = Inr (snd (ForEachVoxel_attr_r F A im1 im2 im3 s))
     \<and> ForEachVoxel_re1_vr F re im1 im2 im3 s = Inr (snd (ForEachVoxel_re1_r F re im1 im2 im3 s))
     \<and> ParallelForEachVoxel_vp sch F im1 im2 im3 s = map_sum id snd (ParallelForEachVoxel_r sch F im1 im2 im3 s)
     \<and> ForEachScalarIf1_vr D F im1 im2 im3 s = Inr (snd (ForEachScalarIf1_r D F im1 im2 im3 s))"
  by (simp add: ForEachScalar_vp_def ForEachVoxel_vp_def ForEachVoxel_attr_vr_def
        ForEachVoxel_re1_vr_def ParallelForEachVoxel_vp_def ForEachScalarIf1_vr_def)

text \<open>
  Claim C1 says that every entry point taking the functor by value fails fast on a
  reduction and otherwise delegates to the corresponding entry point with the functor by
  reference. The guard is there in all of them (\<open>by_value_guard\<close>, \<open>by_value_guard_if\<close>).
  The delegation is not: \<open>ForEachVoxelIf\<close> with two functors by value, a 3-dimensional
  range and the images by pointer calls the overload without a range, where the same
  overload with the images by reference passes the range on. On an image of two voxels and
  the range of the first voxel alone, with functors that are no reductions, the overload
  by reference calls the inside-functor at the one voxel of the range; the overload by
  pointer traverses both voxels of the image, by flat index.
\<close>

theorem by_value_if_3d_range_by_pointer_drops_range:
  "\<not> (IsReduction (recorder InsideFunc False) \<or> IsReduction (recorder OutsideFunc False))
   \<and> ForEachVoxelIf_re3_vr 0 Always (recorder InsideFunc False) (recorder OutsideFunc False)
       (mk_range3d 0 1 0 1 0 1)
       (image 2 1 1 1 0 1) (image 2 1 1 1 0 2) (image 2 1 1 1 0 3) (((), ()), []) =
     Some (Inr [Call4 InsideFunc 0 0 0 0 (Ptr (Some 1) 0) (Ptr (Some 2) 0) (Ptr (Some 3) 0),
                Join InsideFunc, Join OutsideFunc])
   \<and> ForEachVoxelIf_re3_vp Always (recorder InsideFunc False) (recorder OutsideFunc False)
       (mk_range3d 0 1 0 1 0 1)
       (image 2 1 1 1 0 1) (image 2 1 1 1 0 2) (image 2 1 1 1 0 3) (((), ()), []) =
     Some (Inr [CallI InsideFunc (image 2 1 1 1 0 3) 0 (Ptr (Some 1) 0) (Ptr (Some 2) 0) (Ptr (Some 3) 0),
                CallI InsideFunc (image 2 1 1 1 0 3) 1 (Ptr (Some 1) 1) (Ptr (Some 2) 1) (Ptr (Some 3) 1),
                Join InsideFunc, Join OutsideFunc])"
proof (intro conjI)
  show "\<not> (IsReduction (recorder InsideFunc False) \<or> IsReduction (recorder OutsideFunc False))"
    by (simp add: recorder_def)
  show "ForEachVoxelIf_re3_vr 0 Always (recorder InsideFunc False) (recorder OutsideFunc False)
       (mk_range3d 0 1 0 1 0 1)
       (image 2 1 1 1 0 1) (image 2 1 1 1 0 2) (image 2 1 1 1 0 3) (((), ()), []) =
     Some (Inr [Call4 InsideFunc 0 0 0 0 (Ptr (Some 1) 0) (Ptr (Some 2) 0) (Ptr (Some 3) 0),
                Join InsideFunc, Join OutsideFunc])"
    by (simp add: ForEachVoxelIf_re3_vr_def ForEachVoxelIf_re3_r_def ifbody_re3_def
          for_loop.simps mk_range3d_def mk_range_def join_both_def on_inside_def on_outside_def
          Always_def recorder_def image_def start_at_def IsEmpty_def GetPointerToVoxels4_def
          GetX_def GetY_def GetZ_def advance_def ptr_add_def)
  show "ForEachVoxelIf_re3_vp Always (recorder InsideFunc False) (recorder OutsideFunc False)
       (mk_range3d 0 1 0 1 0 1)
       (image 2 1 1 1 0 1) (image 2 1 1 1 0 2) (image 2 1 1 1 0 3) (((), ()), []) =
     Some (Inr [CallI InsideFunc (image 2 1 1 1 0 3) 0 (Ptr (Some 1) 0) (Ptr (Some 2) 0) (Ptr (Some 3) 0),
                CallI InsideFunc (image 2 1 1 1 0 3) 1 (Ptr (Some 1) 1) (Ptr (Some 2) 1) (Ptr (Some 3) 1),
                Join InsideFunc, Join OutsideFunc])"
    by (simp add: ForEachVoxelIf_re3_vp_def ForEachVoxelIf_r.simps ifbody_re1_def
          for_loop.simps mk_range_def join_both_def on_inside_def on_outside_def
          Always_def recorder_def image_def start_from_def IsEmpty_def GetPointerToVoxels_def
          GetX_def GetY_def GetZ_def GetT_def GetTSize_def GetNumberOfVoxels_def
          advance_def ptr_add_def)
qed

subsection \<open>Empty images\<close>

text \<open>
  For an empty image the cursor starts as the null pointer and never points into the
  image's buffer: in a linear traversal it is the null pointer moved by the number of steps
  made so far.
\<close>

lemma empty_image_buffer_untouched:
  "IsEmpty im1 \<Longrightarrow>
     body_re1 F im1 im2 im3 re s =
       foldl (\<lambda>s idx. calli F im3 idx
                      (Ptr None (idx - r_begin re))
                      (ptr_add (start_from im2 (r_begin re)) (idx - r_begin re))
                      (ptr_add (start_from im3 (r_begin re)) (idx - r_begin re)) s)
         s [r_begin re..r_end re - 1]"
  by (simp add: body_re1_calls start_from_def NULL_def ptr_add_def)

text \<open>
  Claim C8 says that the pointer passed for an empty image is null at every call of the
  traversal. Each body sets the cursor of an empty image to \<open>NULL\<close> and then advances it
  with the other cursors after every call (\<open>++p1\<close>, \<open>p1 += 1\<close>), so it is null at the
  first call only. With an empty first image and two voxels to visit, in the linear and in
  the whole-domain traversal, the second call gets the null pointer moved by one voxel.
\<close>

theorem empty_image_pointer_not_null_after_first_call:
  "IsEmpty (image 0 0 0 0 1 1)
   \<and> snd (body_re1 (recorder InsideFunc False)
            (image 0 0 0 0 1 1) (image 2 1 1 1 1 2) (image 2 1 1 1 1 3) (mk_range 0 2) ((), [])) =
       [CallI InsideFunc (image 2 1 1 1 1 3) 0 NULL (Ptr (Some 2) 0) (Ptr (Some 3) 0),
        CallI InsideFunc (image 2 1 1 1 1 3) 1 (ptr_add NULL 1) (Ptr (Some 2) 1) (Ptr (Some 3) 1)]
   \<and> snd (body_attr (recorder InsideFunc False)
            (image 0 0 0 0 1 1) (image 2 1 1 1 1 2) (image 2 1 1 1 1 3)
            \<lparr>a_x = 2, a_y = 1, a_z = 1, a_t = 1, a_dt = 1\<rparr> ((), [])) =
       [Call4 InsideFunc 0 0 0 0 NULL (Ptr (Some 2) 0) (Ptr (Some 3) 0),
        Call4 InsideFunc 1 0 0 0 (ptr_add NULL 1) (Ptr (Some 2) 1) (Ptr (Some 3) 1)]
   \<and> ptr_add NULL 1 \<noteq> NULL"
  unfolding body_re1_recorder body_attr_flat
  by (simp add: upto.simps mk_range_def recorder_def image_def
        start_def start_from_def IsEmpty_def GetPointerToVoxels_def NULL_def
        advance_def ptr_add_def)

subsection \<open>Calls without a range\<close>

text \<open>
  Claim C4 says that without a range the choice is between a traversal of \<open>totalVoxels\<close>
  elements when the temporal axis is a vector length (temporal spacing zero) and of
  \<open>totalVoxels / sizeT\<close> elements when it is time (temporal spacing not zero). The code
  has the two counts the other way round: on a last image of 2 voxels with \<open>_t = 2\<close>,
  \<open>ForEachVoxel\<close> visits both of them when the temporal spacing is 1 and only the first
  (\<open>2 / 2 = 1\<close> element) when it is 0.
\<close>

theorem rangeless_dispatch_counterexample:
  "GetTSize (image 1 1 1 2 1 3) \<noteq> 0
   \<and> GetNumberOfVoxels (image 1 1 1 2 1 3) = 2
   \<and> GetNumberOfVoxels (image 1 1 1 2 1 3) sdiv GetT (image 1 1 1 2 1 3) = 1
   \<and> ForEachVoxel_p (recorder InsideFunc False)
        (image 1 1 1 2 1 1) (image 1 1 1 2 1 2) (image 1 1 1 2 1 3) ((), []) =
      Inr ((), [CallI InsideFunc (image 1 1 1 2 1 3) 0 (Ptr (Some 1) 0) (Ptr (Some 2) 0) (Ptr (Some 3) 0),
                CallI InsideFunc (image 1 1 1 2 1 3) 1 (Ptr (Some 1) 1) (Ptr (Some 2) 1) (Ptr (Some 3) 1),
                Join InsideFunc])
   \<and> GetTSize (image 1 1 1 2 0 3) = 0
   \<and> ForEachVoxel_p (recorder InsideFunc False)
        (image 1 1 1 2 0 1) (image 1 1 1 2 0 2) (image 1 1 1 2 0 3) ((), []) =
      Inr ((), [CallI InsideFunc (image 1 1 1 2 0 3) 0 (Ptr (Some 1) 0) (Ptr (Some 2) 0) (Ptr (Some 3) 0),
                Join InsideFunc])"
  unfolding ForEachVoxel_p_def ForEachScalar_r_def body_re1_recorder
  by (simp add: upto.simps
        mk_range_def recorder_def image_def
        start_from_def IsEmpty_def GetPointerToVoxels_def GetTSize_def GetT_def
        GetNumberOfVoxels_def GetX_def GetY_def GetZ_def ptr_add_def)

text \<open>
  Claim C4 as amended. \<open>ForEachVoxel\<close> and \<open>ParallelForEachVoxel\<close> without a range are the
  calls of the same entry point with the linear range from 0 to \<open>n\<close>, where \<open>n\<close> is
  fixed before anything is visited and depends on the last image alone: its number of
  voxels when its temporal spacing is not zero (this is \<open>ForEachScalar\<close>), and its number
  of voxels divided by \<open>_t\<close> when the spacing is zero (a division by zero when \<open>_t\<close> is
  0 too).
\<close>

theorem rangeless_dispatch_by_temporal_spacing:
  "(let n = (if GetTSize im3 \<noteq> 0 then GetNumberOfVoxels im3
             else GetNumberOfVoxels im3 sdiv GetT im3)
    in ForEachVoxel_p F im1 im2 im3 s =
         (if GetTSize im3 = 0 \<and> GetT im3 = 0 then Inl DivisionByZero
          else Inr (ForEachVoxel_re1_r F (mk_range 0 n) im1 im2 im3 s))
       \<and> ParallelForEachVoxel_p sch F im1 im2 im3 s =
         (if GetTSize im3 = 0 \<and> GetT im3 = 0 then Inl DivisionByZero
          else Inr (ParallelForEachVoxel_re1_r sch F (mk_range 0 n) im1 im2 im3 s)))"
  by (simp add: Let_def ForEachVoxel_p_def ForEachScalar_r_def ForEachVoxel_re1_r_def
        ParallelForEachVoxel_p_def ParallelForEachScalar_r_def ParallelForEachVoxel_re1_r_def
        split: prod.splits)

theorem rangeless_dispatch_by_temporal_spacing_witness:
  "ParallelForEachVoxel_p serial (recorder InsideFunc True)
        (image 1 1 1 2 1 1) (image 1 1 1 2 1 2) (image 1 1 1 2 1 3) ((), []) =
      Inr ((), [CallI InsideFunc (image 1 1 1 2 1 3) 0 (Ptr (Some 1) 0) (Ptr (Some 2) 0) (Ptr (Some 3) 0),
                CallI InsideFunc (image 1 1 1 2 1 3) 1 (Ptr (Some 1) 1) (Ptr (Some 2) 1) (Ptr (Some 3) 1),
                Join InsideFunc])
   \<and> ParallelForEachVoxel_p serial (recorder InsideFunc True)
        (image 1 1 1 2 0 1) (image 1 1 1 2 0 2) (image 1 1 1 2 0 3) ((), []) =
      Inr ((), [CallI InsideFunc (image 1 1 1 2 0 3) 0 (Ptr (Some 1) 0) (Ptr (Some 2) 0) (Ptr (Some 3) 0),
                Join InsideFunc])"
  unfolding rangeless_dispatch_by_temporal_spacing [unfolded Let_def, THEN conjunct2]
    ParallelForEachVoxel_re1_r_def serial_def body_re1_recorder
  by (simp add: body_re1_recorder upto.simps
        mk_range_def recorder_def image_def
        start_from_def IsEmpty_def GetPointerToVoxels_def GetTSize_def GetT_def
        GetNumberOfVoxels_def GetX_def GetY_def GetZ_def ptr_add_def)

subsection \<open>Calls of join\<close>

lemma bodies_join_irrelevant:
  "body_attr (F\<lparr>vf_join := j\<rparr>) im1 im2 im3 = body_attr F im1 im2 im3"
  "body_re1 (F\<lparr>vf_join := j\<rparr>) im1 im2 im3 = body_re1 F im1 im2 im3"
  "body_re2 (F\<lparr>vf_join := j\<rparr>) im1 im2 im3 = body_re2 F im1 im2 im3"
  "body_re3 (F\<lparr>vf_join := j\<rparr>) im1 im2 im3 = body_re3 F im1 im2 im3"
  "ifbody_attr D (F\<lparr>vf_join := j\<rparr>) (G\<lparr>vf_join := j'\<rparr>) im1 im2 im3 =
     ifbody_attr D F G im1 im2 im3"
  by (simp_all add: fun_eq_iff body_attr_def body_re1_def body_re2_def body_re3_def
        ifbody_attr_def cong: if_cong)

lemma ifbodies_join_irrelevant:
  "ifbody_re1 D (F\<lparr>vf_join := j\<rparr>) G im1 im2 im3 = ifbody_re1 D F G im1 im2 im3"
  "ifbody_re1 D F (G\<lparr>vf_join := j'\<rparr>) im1 im2 im3 = ifbody_re1 D F G im1 im2 im3"
  "ifbody_re2 D (F\<lparr>vf_join := j\<rparr>) G im1 im2 im3 = ifbody_re2 D F G im1 im2 im3"
  "ifbody_re2 D F (G\<lparr>vf_join := j'\<rparr>) im1 im2 im3 = ifbody_re2 D F G im1 im2 im3"
  "ifbody_re3 D (F\<lparr>vf_join := j\<rparr>) G im1 im2 im3 = ifbody_re3 D F G im1 im2 im3"
  "ifbody_re3 D F (G\<lparr>vf_join := j'\<rparr>) im1 im2 im3 = ifbody_re3 D F G im1 im2 im3"
  by (simp_all add: fun_eq_iff ifbody_re1_def ifbody_re2_def ifbody_re3_def cong: if_cong)

lemma join_both_update:
  "join_both (F\<lparr>vf_join := j1\<rparr>) (G\<lparr>vf_join := j2\<rparr>) =
     (\<lambda>b t. on_outside (j2 (snd b)) (on_inside (j1 (fst b)) t))"
  "split_both (F\<lparr>vf_join := j1\<rparr>) (G\<lparr>vf_join := j2\<rparr>) = split_both F G"
  by (simp_all add: fun_eq_iff join_both_def split_both_def)

lemma ForEachVoxelIf_r_vector:
  "GetTSize im3 = 0 \<Longrightarrow>
     ForEachVoxelIf_r D F G im1 im2 im3 s =
       Some (if GetT im3 = 0 then Inl DivisionByZero
             else Inr (case ifbody_re1 D F G im1 im2 im3
                              (mk_range 0 (GetNumberOfVoxels im3 sdiv GetT im3)) s
                       of (b, m) \<Rightarrow> join_both F G b (fst s, m)))"
  by (subst ForEachVoxelIf_r.simps) (simp add: Let_def split: prod.splits)

lemma ParallelForEachVoxelIf_r_vector:
  "GetTSize im3 = 0 \<Longrightarrow>
     ParallelForEachVoxelIf_r sch D F G im1 im2 im3 s =
       Some (if GetT im3 = 0 then Inl DivisionByZero
             else Inr (let re = mk_range 0 (GetNumberOfVoxels im3 sdiv GetT im3)
                       in if IsReduction F \<or> IsReduction G
                          then (case parallel_reduce sch re (ifbody_re1 D F G im1 im2 im3)
                                       (split_both F G) (join_both F G) s
                                of (b, m) \<Rightarrow> join_both F G b (fst s, m))
                          else (fst s, parallel_for sch re (ifbody_re1 D F G im1 im2 im3) s)))"
  by (subst ParallelForEachVoxelIf_r.simps) (simp add: Let_def split: prod.splits)

lemma ifbody_re1_recorder_joins:
  assumes "\<And>r im idx p1 p2 p3. \<not> P (CallI r im idx p1 p2 p3)"
  shows "filter P (snd (ifbody_re1 D (recorder w1 r1) (recorder w2 r2) im1 im2 im3 re s)) =
         filter P (snd s)"
proof -
  have "filter P (snd (snd (foldl (\<lambda>(c, s) idx.
                  (advance 1 c,
                   case c of (p1, p2, p3) \<Rightarrow>
                     if IsInsidei D im3 idx p3 (snd s)
                     then on_inside (calli (recorder w1 r1) im3 idx p1 p2 p3) s
                     else on_outside (calli (recorder w2 r2) im3 idx p1 p2 p3) s))
            (c, s) xs))) = filter P (snd s)" for c xs
  proof (induction xs arbitrary: c s)
    case Nil
    show ?case by simp
  next
    case (Cons idx xs)
    obtain p1 p2 p3 where c: "c = (p1, p2, p3)" by (cases c)
    obtain f g m where s: "s = ((f, g), m)" by (cases s) auto
    show ?case
      by (simp add: Cons.IH c s recorder_def on_inside_def on_outside_def assms)
  qed
  then show ?thesis unfolding ifbody_re1_flat .
qed

lemma join_both_recorder:
  "snd (join_both (recorder w1 r1) (recorder w2 r2) b (fg, m)) = m @ [Join w1, Join w2]"
  by (cases fg) (simp add: join_both_def on_inside_def on_outside_def recorder_def)

lemma ifbody_re1_recorder_joined:
  "[ev \<leftarrow> snd (case ifbody_re1 D (recorder InsideFunc r1) (recorder OutsideFunc r2)
                       im1 im2 im3 re (uu, [])
                of (b, m) \<Rightarrow> join_both (recorder InsideFunc r1) (recorder OutsideFunc r2) b (uu', m)).
      ev = Join InsideFunc \<or> ev = Join OutsideFunc] = [Join InsideFunc, Join OutsideFunc]"
proof -
  obtain b m where r: "ifbody_re1 D (recorder InsideFunc r1) (recorder OutsideFunc r2)
                         im1 im2 im3 re (uu, []) = (b, m)"
    by (cases "ifbody_re1 D (recorder InsideFunc r1) (recorder OutsideFunc r2)
                 im1 im2 im3 re (uu, [])")
  have "[ev \<leftarrow> snd (ifbody_re1 D (recorder InsideFunc r1) (recorder OutsideFunc r2)
                       im1 im2 im3 re (uu, [])).
           ev = Join InsideFunc \<or> ev = Join OutsideFunc] =
        [ev \<leftarrow> snd (uu, []). ev = Join InsideFunc \<or> ev = Join OutsideFunc]"
    by (rule ifbody_re1_recorder_joins) simp
  then have "[ev \<leftarrow> m. ev = Join InsideFunc \<or> ev = Join OutsideFunc] = []"
    by (simp add: r)
  then show ?thesis by (simp add: r join_both_recorder)
qed

lemma ifbody_re1_recorder_not_joined:
  "[ev \<leftarrow> snd (ifbody_re1 D (recorder InsideFunc r1) (recorder OutsideFunc r2)
                       im1 im2 im3 re (uu, [])).
      ev = Join InsideFunc \<or> ev = Join OutsideFunc] = []"
proof -
  have "[ev \<leftarrow> snd (ifbody_re1 D (recorder InsideFunc r1) (recorder OutsideFunc r2)
                       im1 im2 im3 re (uu, [])).
           ev = Join InsideFunc \<or> ev = Join OutsideFunc] =
        [ev \<leftarrow> snd (uu, []). ev = Join InsideFunc \<or> ev = Join OutsideFunc]"
    by (rule ifbody_re1_recorder_joins) simp
  then show ?thesis by simp
qed

text \<open>
  Claim C5 says that join is called only when \<open>IsReduction()\<close> is true. The sequential
  entry points end with \<open>vf.join(body._VoxelFunc)\<close> whatever \<open>IsReduction()\<close> is: the
  recording functor that is no reduction has its join called by \<open>ForEachScalar\<close>.
\<close>

theorem sequential_join_counterexample:
  "\<not> IsReduction (recorder InsideFunc False)
   \<and> ForEachScalar_p (recorder InsideFunc False)
        (image 1 1 1 1 1 1) (image 1 1 1 1 1 2) (image 1 1 1 1 1 3) ((), []) =
      ((), [CallI InsideFunc (image 1 1 1 1 1 3) 0 (Ptr (Some 1) 0) (Ptr (Some 2) 0) (Ptr (Some 3) 0),
            Join InsideFunc])"
  unfolding ForEachScalar_p_def body_re1_recorder
  by (simp add: upto.simps mk_range_def recorder_def image_def
        start_from_def IsEmpty_def GetPointerToVoxels_def
        GetNumberOfVoxels_def GetX_def GetY_def GetZ_def GetT_def ptr_add_def)

text \<open>
  Claim C5 as amended. Whatever operation \<open>j\<close> a functor has as its join:

  \<^item> A sequential entry point that returns has called join exactly once on each of its
    functors, after the traversal, whether the functor is a reduction or not: its result
    is \<open>j\<close> applied once to the result of the traversal, and the traversal does not depend
    on \<open>j\<close> (with two functors, the inside-functor's join and then the outside-functor's).
  \<^item> A parallel entry point with one functor calls join on the caller's functor only when
    \<open>IsReduction()\<close> is true: once, after \<open>parallel_reduce\<close> has returned. When it is
    false the result is that of \<open>parallel_for\<close>, in which \<open>j\<close> does not occur.
  \<^item> A parallel entry point with two functors calls join once on each of the caller's two
    functors, after \<open>parallel_reduce\<close> has returned, when at least one of the two is a
    reduction; so a functor that is no reduction is joined too when the other one is a
    reduction (also the local \<open>NOP\<close> of the forms with one functor, which are the calls
    with \<open>NOP\<close> as outside-functor). When neither is a reduction no join occurs.
  \<^item> The joins of partitions are the scheduler's: \<open>parallel_reduce\<close> is handed the
    body's join.

  This is stated for the entry points with the functors by reference and the images by
  reference, for every kind of range, and for those with the images by pointer that are
  named (the others by pointer have the same text); the entry points without a range that
  call themselves on a time series are taken where they return, on a last image with
  temporal spacing zero. An entry point with the functors by value is the call of the one
  by reference on its copies of the functors when none is a reduction, so a sequential one
  joins each copy once and a parallel one joins nothing. With the recording functors and any three images: \<open>ForEachScalar\<close>
  logs one join whether the functor is a reduction or not, \<open>ParallelForEachScalar\<close> on a
  single thread logs one for a reduction and none otherwise, \<open>ForEachScalarIf\<close> logs one
  for each functor, and \<open>ParallelForEachScalarIf\<close> on a single thread logs one for each
  functor when either is a reduction and none when neither is.
\<close>

theorem join_sequential_always_parallel_only_reductions:
  "(let N = GetNumberOfVoxels im3;
        n = (if GetTSize im3 \<noteq> 0 then N else N sdiv GetT im3);
        div0 = (GetTSize im3 = 0 \<and> GetT im3 = 0);
        reA = mk_range3d 0 (a_z A) 0 (a_y A) 0 (a_x A);
        F1 = F\<lparr>vf_join := j\<rparr>; H1 = H\<lparr>vf_join := j1\<rparr>; G1 = G\<lparr>vf_join := j2\<rparr>;
        once = (\<lambda>r. case r of (bf, m) \<Rightarrow> j bf (fst s, m));
        jb = (\<lambda>b t. on_outside (j2 (snd b)) (on_inside (j1 (fst b)) t));
        both = (\<lambda>r. case r of (b, m) \<Rightarrow> jb b (fst t, m))
    in ForEachScalar_p F1 im1 im2 im3 s = once (body_re1 F im1 im2 im3 (mk_range 0 N) s)
       \<and> ForEachScalar_r F1 im1 im2 im3 s = once (body_re1 F im1 im2 im3 (mk_range 0 N) s)
       \<and> ForEachVoxel_p F1 im1 im2 im3 s =
           (if div0 then Inl DivisionByZero
            else Inr (once (body_re1 F im1 im2 im3 (mk_range 0 n) s)))
       \<and> ForEachVoxel_r F1 im1 im2 im3 s =
           (if div0 then Inl DivisionByZero
            else Inr (once (body_re1 F im1 im2 im3 (mk_range 0 n) s)))
       \<and> ForEachVoxel_attr_r F1 A im1 im2 im3 s = once (body_attr F im1 im2 im3 A s)
       \<and> ForEachVoxel_re1_r F1 re1 im1 im2 im3 s = once (body_re1 F im1 im2 im3 re1 s)
       \<and> ForEachVoxel_re2_r k0 l0 F1 re2 im1 im2 im3 s =
           once (body_re2 F im1 im2 im3 k0 l0 re2 s)
       \<and> ForEachVoxel_re3_r l0 F1 re3 im1 im2 im3 s = once (body_re3 F im1 im2 im3 l0 re3 s)
       \<and> ForEachScalarIf_r D H1 G1 im1 im2 im3 t =
           both (ifbody_re1 D H G im1 im2 im3 (mk_range 0 N) t)
       \<and> ForEachVoxelIf_p D H1 G1 im1 im2 im3 t =
           (if div0 then Inl DivisionByZero
            else Inr (both (ifbody_re1 D H G im1 im2 im3 (mk_range 0 n) t)))
       \<and> (GetTSize im3 = 0 \<longrightarrow>
            ForEachVoxelIf_r D H1 G1 im1 im2 im3 t =
              Some (if div0 then Inl DivisionByZero
                    else Inr (both (ifbody_re1 D H G im1 im2 im3 (mk_range 0 n) t))))
       \<and> ForEachVoxelIf_attr_r D H1 G1 A im1 im2 im3 t = both (ifbody_attr D H G im1 im2 im3 A t)
       \<and> ForEachVoxelIf_re1_r D H1 G1 re1 im1 im2 im3 t =
           both (ifbody_re1 D H G im1 im2 im3 re1 t)
       \<and> ForEachVoxelIf_re2_r k0 l0 D H1 G1 re2 im1 im2 im3 t =
           both (ifbody_re2 D H G im1 im2 im3 k0 l0 re2 t)
       \<and> ForEachVoxelIf_re3_r l0 D H1 G1 re3 im1 im2 im3 t =
           both (ifbody_re3 D H G im1 im2 im3 l0 re3 t)
       \<and> ParallelForEachScalar_p sch F1 im1 im2 im3 s =
           (if IsReduction F
            then once (parallel_reduce sch (mk_range 0 N) (body_re1 F im1 im2 im3) (vf_split F) j s)
            else (fst s, parallel_for sch (mk_range 0 N) (body_re1 F im1 im2 im3) s))
       \<and> ParallelForEachScalar_r sch F1 im1 im2 im3 s =
           (if IsReduction F
            then once (parallel_reduce sch (mk_range 0 N) (body_re1 F im1 im2 im3) (vf_split F) j s)
            else (fst s, parallel_for sch (mk_range 0 N) (body_re1 F im1 im2 im3) s))
       \<and> ParallelForEachVoxel_p sch F1 im1 im2 im3 s =
           (if div0 then Inl DivisionByZero
            else Inr (if IsReduction F
                      then once (parallel_reduce sch (mk_range 0 n) (body_re1 F im1 im2 im3)
                                   (vf_split F) j s)
                      else (fst s, parallel_for sch (mk_range 0 n) (body_re1 F im1 im2 im3) s)))
       \<and> ParallelForEachVoxel_r sch F1 im1 im2 im3 s =
           (if div0 then Inl DivisionByZero
            else Inr (if IsReduction F
                      then once (parallel_reduce sch (mk_range 0 n) (body_re1 F im1 im2 im3)
                                   (vf_split F) j s)
                      else (fst s, parallel_for sch (mk_range 0 n) (body_re1 F im1 im2 im3) s)))
       \<and> ParallelForEachVoxel_attr_r l0 sch F1 A im1 im2 im3 s =
           (if IsReduction F
            then once (if a_dt A \<noteq> 0
                       then for_loop 0 (a_t A) (\<lambda>l.
                              parallel_reduce3 sch reA (body_re3 F im1 im2 im3 l) (vf_split F) j) s
                       else parallel_reduce3 sch reA (body_re3 F im1 im2 im3 l0) (vf_split F) j s)
            else (fst s,
                  if a_dt A \<noteq> 0
                  then for_loop 0 (a_t A) (\<lambda>l m.
                         parallel_for3 sch reA (body_re3 F im1 im2 im3 l) (fst s, m)) (snd s)
                  else parallel_for3 sch reA (body_re3 F im1 im2 im3 l0) s))
       \<and> ParallelForEachVoxel_re1_r sch F1 re1 im1 im2 im3 s =
           (if IsReduction F
            then once (parallel_reduce sch re1 (body_re1 F im1 im2 im3) (vf_split F) j s)
            else (fst s, parallel_for sch re1 (body_re1 F im1 im2 im3) s))
       \<and> ParallelForEachVoxel_re2_r k0 l0 sch F1 re2 im1 im2 im3 s =
           (if IsReduction F
            then once (parallel_reduce2 sch re2 (body_re2 F im1 im2 im3 k0 l0) (vf_split F) j s)
            else (fst s, parallel_for2 sch re2 (body_re2 F im1 im2 im3 k0 l0) s))
       \<and> ParallelForEachVoxel_re3_r l0 sch F1 re3 im1 im2 im3 s =
           (if IsReduction F
            then once (parallel_reduce3 sch re3 (body_re3 F im1 im2 im3 l0) (vf_split F) j s)
            else (fst s, parallel_for3 sch re3 (body_re3 F im1 im2 im3 l0) s))
       \<and> ParallelForEachScalarIf_r sch2 D H1 G1 im1 im2 im3 t =
           (if IsReduction H \<or> IsReduction G
            then both (parallel_reduce sch2 (mk_range 0 N) (ifbody_re1 D H G im1 im2 im3)
                         (split_both H G) jb t)
            else (fst t, parallel_for sch2 (mk_range 0 N) (ifbody_re1 D H G im1 im2 im3) t))
       \<and> (GetTSize im3 = 0 \<longrightarrow>
            ParallelForEachVoxelIf_p sch2 D H1 G1 im1 im2 im3 t =
              Some (if div0 then Inl DivisionByZero
                    else Inr (if IsReduction H \<or> IsReduction G
                              then both (parallel_reduce sch2 (mk_range 0 n)
                                           (ifbody_re1 D H G im1 im2 im3) (split_both H G) jb t)
                              else (fst t, parallel_for sch2 (mk_range 0 n)
                                             (ifbody_re1 D H G im1 im2 im3) t)))
            \<and> ParallelForEachVoxelIf_r sch2 D H1 G1 im1 im2 im3 t =
              Some (if div0 then Inl DivisionByZero
                    else Inr (if IsReduction H \<or> IsReduction G
                              then both (parallel_reduce sch2 (mk_range 0 n)
                                           (ifbody_re1 D H G im1 im2 im3) (split_both H G) jb t)
                              else (fst t, parallel_for sch2 (mk_range 0 n)
                                             (ifbody_re1 D H G im1 im2 im3) t))))
       \<and> ParallelForEachVoxelIf_attr_r l0 sch2 D H1 G1 A im1 im2 im3 t =
           (if IsReduction H \<or> IsReduction G
            then both (if a_dt A \<noteq> 0
                       then for_loop 0 (a_t A) (\<lambda>l.
                              parallel_reduce3 sch2 reA (ifbody_re3 D H G im1 im2 im3 l)
                                (split_both H G) jb) t
                       else parallel_reduce3 sch2 reA (ifbody_re3 D H G im1 im2 im3 l0)
                              (split_both H G) jb t)
            else (fst t,
                  if a_dt A \<noteq> 0
                  then for_loop 0 (a_t A) (\<lambda>l m.
                         parallel_for3 sch2 reA (ifbody_re3 D H G im1 im2 im3 l) (fst t, m)) (snd t)
                  else parallel_for3 sch2 reA (ifbody_re3 D H G im1 im2 im3 l0) t))
       \<and> ParallelForEachVoxelIf_re1_r sch2 D H1 G1 re1 im1 im2 im3 t =
           (if IsReduction H \<or> IsReduction G
            then both (parallel_reduce sch2 re1 (ifbody_re1 D H G im1 im2 im3)
                         (split_both H G) jb t)
            else (fst t, parallel_for sch2 re1 (ifbody_re1 D H G im1 im2 im3) t))
       \<and> ParallelForEachVoxelIf_re2_r k0 l0 sch2 D H1 G1 re2 im1 im2 im3 t =
           (if IsReduction H \<or> IsReduction G
            then both (parallel_reduce2 sch2 re2 (ifbody_re2 D H G im1 im2 im3 k0 l0)
                         (split_both H G) jb t)
            else (fst t, parallel_for2 sch2 re2 (ifbody_re2 D H G im1 im2 im3 k0 l0) t))
       \<and> ParallelForEachVoxelIf_re3_r l0 sch2 D H1 G1 re3 im1 im2 im3 t =
           (if IsReduction H \<or> IsReduction G
            then both (parallel_reduce3 sch2 re3 (ifbody_re3 D H G im1 im2 im3 l0)
                         (split_both H G) jb t)
            else (fst t, parallel_for3 sch2 re3 (ifbody_re3 D H G im1 im2 im3 l0) t))
       \<and> ParallelForEachScalarIf1_r sch1 D F1 im1 im2 im3 s =
           (case ParallelForEachScalarIf_r sch1 D F1 NOP im1 im2 im3 ((fst s, ()), snd s)
            of ((f, u), m) \<Rightarrow> (f, m))
       \<and> ForEachScalarIf1_r D F1 im1 im2 im3 s =
           (case ForEachScalarIf_r D F1 NOP im1 im2 im3 ((fst s, ()), snd s)
            of ((f, u), m) \<Rightarrow> (f, m))
       \<and> ForEachScalar_vp F1 im1 im2 im3 s =
           (if IsReduction F then Inl irtkforeachternaryvoxelfunction_must_not_be_reduction
            else Inr (snd (once (body_re1 F im1 im2 im3 (mk_range 0 N) s))))
       \<and> ForEachVoxel_vp F1 im1 im2 im3 s =
           (if IsReduction F then Inl irtkforeachternaryvoxelfunction_must_not_be_reduction
            else if div0 then Inl DivisionByZero
            else Inr (snd (once (body_re1 F im1 im2 im3 (mk_range 0 n) s))))
       \<and> ForEachVoxel_attr_vr F1 A im1 im2 im3 s =
           (if IsReduction F then Inl irtkforeachternaryvoxelfunction_must_not_be_reduction
            else Inr (snd (once (body_attr F im1 im2 im3 A s))))
       \<and> ForEachVoxel_re1_vr F1 re1 im1 im2 im3 s =
           (if IsReduction F then Inl irtkforeachternaryvoxelfunction_must_not_be_reduction
            else Inr (snd (once (body_re1 F im1 im2 im3 re1 s))))
       \<and> ForEachVoxelIf_re3_vr l0 D H1 G1 re3 im1 im2 im3 t =
           Some (if IsReduction H \<or> IsReduction G
                 then Inl irtkforeachternaryvoxelfunction_must_not_be_reduction
                 else Inr (snd (both (ifbody_re3 D H G im1 im2 im3 l0 re3 t))))
       \<and> ParallelForEachVoxel_vp sch F1 im1 im2 im3 s =
           (if IsReduction F then Inl irtkforeachternaryvoxelfunction_must_not_be_reduction
            else if div0 then Inl DivisionByZero
            else Inr (parallel_for sch (mk_range 0 n) (body_re1 F im1 im2 im3) s))
       \<and> (GetTSize im3 = 0 \<longrightarrow>
            ForEachVoxelIf_vp D H1 G1 im1 im2 im3 t =
              Some (if IsReduction H \<or> IsReduction G
                    then Inl irtkforeachternaryvoxelfunction_must_not_be_reduction
                    else if div0 then Inl DivisionByZero
                    else Inr (snd (both (ifbody_re1 D H G im1 im2 im3 (mk_range 0 n) t)))))
       \<and> [ev \<leftarrow> snd (ForEachScalar_p (recorder w red) im1 im2 im3 (u, [])). ev = Join w] =
           [Join w]
       \<and> [ev \<leftarrow> snd (ParallelForEachScalar_p serial (recorder w red) im1 im2 im3 (u, [])).
            ev = Join w] = (if red then [Join w] else [])
       \<and> [ev \<leftarrow> snd (ForEachScalarIf_r D' (recorder InsideFunc r1) (recorder OutsideFunc r2)
                        im1 im2 im3 (uu, [])).
            ev = Join InsideFunc \<or> ev = Join OutsideFunc] = [Join InsideFunc, Join OutsideFunc]
       \<and> [ev \<leftarrow> snd (ParallelForEachScalarIf_r serial D' (recorder InsideFunc r1)
                        (recorder OutsideFunc r2) im1 im2 im3 (uu, [])).
            ev = Join InsideFunc \<or> ev = Join OutsideFunc] =
           (if r1 \<or> r2 then [Join InsideFunc, Join OutsideFunc] else []))"
  unfolding Let_def
proof (intro conjI impI)
  show "[ev \<leftarrow> snd (ForEachScalar_p (recorder w red) im1 im2 im3 (u, [])). ev = Join w] = [Join w]"
    unfolding ForEachScalar_p_def body_re1_recorder
    by (simp add: Let_def recorder_def filter_empty_conv)
  show "[ev \<leftarrow> snd (ParallelForEachScalar_p serial (recorder w red) im1 im2 im3 (u, [])).
            ev = Join w] = (if red then [Join w] else [])"
    unfolding ParallelForEachScalar_p_def serial_def body_re1_recorder
    by (simp add: Let_def recorder_def body_re1_recorder [unfolded recorder_def] filter_empty_conv)
  show "[ev \<leftarrow> snd (ForEachScalarIf_r D' (recorder InsideFunc r1) (recorder OutsideFunc r2)
                        im1 im2 im3 (uu, [])).
            ev = Join InsideFunc \<or> ev = Join OutsideFunc] = [Join InsideFunc, Join OutsideFunc]"
    unfolding ForEachScalarIf_r_def Let_def by (simp add: ifbody_re1_recorder_joined)
  show "[ev \<leftarrow> snd (ParallelForEachScalarIf_r serial D' (recorder InsideFunc r1)
                        (recorder OutsideFunc r2) im1 im2 im3 (uu, [])).
            ev = Join InsideFunc \<or> ev = Join OutsideFunc] =
           (if r1 \<or> r2 then [Join InsideFunc, Join OutsideFunc] else [])"
  proof (cases "r1 \<or> r2")
    case True
    then have "IsReduction (recorder InsideFunc r1) \<or> IsReduction (recorder OutsideFunc r2)"
      by (simp add: recorder_def)
    with True show ?thesis
      unfolding ParallelForEachScalarIf_r_def Let_def
      by (simp add: serial_def ifbody_re1_recorder_joined)
  next
    case False
    then have "\<not> (IsReduction (recorder InsideFunc r1) \<or> IsReduction (recorder OutsideFunc r2))"
      by (simp add: recorder_def)
    with False show ?thesis
      unfolding ParallelForEachScalarIf_r_def Let_def
      by (simp add: serial_def ifbody_re1_recorder_not_joined)
  qed
next
  assume "GetTSize im3 = 0"
  then show "ForEachVoxelIf_r D (H\<lparr>vf_join := j1\<rparr>) (G\<lparr>vf_join := j2\<rparr>) im1 im2 im3 t =
      Some (if GetTSize im3 = 0 \<and> GetT im3 = 0 then Inl DivisionByZero
            else Inr (case ifbody_re1 D H G im1 im2 im3
                             (mk_range 0 (if GetTSize im3 \<noteq> 0 then GetNumberOfVoxels im3
                                          else GetNumberOfVoxels im3 sdiv GetT im3)) t
                      of (b, m) \<Rightarrow> on_outside (j2 (snd b)) (on_inside (j1 (fst b)) (fst t, m))))"
    by (simp add: ForEachVoxelIf_r_vector ifbodies_join_irrelevant join_both_update)
next
  assume z: "GetTSize im3 = 0"
  have r: "ParallelForEachVoxelIf_r sch2 D (H\<lparr>vf_join := j1\<rparr>) (G\<lparr>vf_join := j2\<rparr>) im1 im2 im3 t =
      Some (if GetTSize im3 = 0 \<and> GetT im3 = 0 then Inl DivisionByZero
            else Inr (if IsReduction H \<or> IsReduction G
                      then (case parallel_reduce sch2
                                   (mk_range 0 (if GetTSize im3 \<noteq> 0 then GetNumberOfVoxels im3
                                                else GetNumberOfVoxels im3 sdiv GetT im3))
                                   (ifbody_re1 D H G im1 im2 im3) (split_both H G)
                                   (\<lambda>b t. on_outside (j2 (snd b)) (on_inside (j1 (fst b)) t)) t
                            of (b, m) \<Rightarrow> on_outside (j2 (snd b)) (on_inside (j1 (fst b)) (fst t, m)))
                      else (fst t, parallel_for sch2
                                   (mk_range 0 (if GetTSize im3 \<noteq> 0 then GetNumberOfVoxels im3
                                                else GetNumberOfVoxels im3 sdiv GetT im3))
                                   (ifbody_re1 D H G im1 im2 im3) t)))"
    using z by (simp add: ParallelForEachVoxelIf_r_vector ifbodies_join_irrelevant join_both_update Let_def)
  show "ParallelForEachVoxelIf_r sch2 D (H\<lparr>vf_join := j1\<rparr>) (G\<lparr>vf_join := j2\<rparr>) im1 im2 im3 t =
      Some (if GetTSize im3 = 0 \<and> GetT im3 = 0 then Inl DivisionByZero
            else Inr (if IsReduction H \<or> IsReduction G
                      then (case parallel_reduce sch2
                                   (mk_range 0 (if GetTSize im3 \<noteq> 0 then GetNumberOfVoxels im3
                                                else GetNumberOfVoxels im3 sdiv GetT im3))
                                   (ifbody_re1 D H G im1 im2 im3) (split_both H G)
                                   (\<lambda>b t. on_outside (j2 (snd b)) (on_inside (j1 (fst b)) t)) t
                            of (b, m) \<Rightarrow> on_outside (j2 (snd b)) (on_inside (j1 (fst b)) (fst t, m)))
                      else (fst t, parallel_for sch2
                                   (mk_range 0 (if GetTSize im3 \<noteq> 0 then GetNumberOfVoxels im3
                                                else GetNumberOfVoxels im3 sdiv GetT im3))
                                   (ifbody_re1 D H G im1 im2 im3) t)))"
    by (rule r)
  show "ParallelForEachVoxelIf_p sch2 D (H\<lparr>vf_join := j1\<rparr>) (G\<lparr>vf_join := j2\<rparr>) im1 im2 im3 t =
      Some (if GetTSize im3 = 0 \<and> GetT im3 = 0 then Inl DivisionByZero
            else Inr (if IsReduction H \<or> IsReduction G
                      then (case parallel_reduce sch2
                                   (mk_range 0 (if GetTSize im3 \<noteq> 0 then GetNumberOfVoxels im3
                                                else GetNumberOfVoxels im3 sdiv GetT im3))
                                   (ifbody_re1 D H G im1 im2 im3) (split_both H G)
                                   (\<lambda>b t. on_outside (j2 (snd b)) (on_inside (j1 (fst b)) t)) t
                            of (b, m) \<Rightarrow> on_outside (j2 (snd b)) (on_inside (j1 (fst b)) (fst t, m)))
                      else (fst t, parallel_for sch2
                                   (mk_range 0 (if GetTSize im3 \<noteq> 0 then GetNumberOfVoxels im3
                                                else GetNumberOfVoxels im3 sdiv GetT im3))
                                   (ifbody_re1 D H G im1 im2 im3) t)))"
    using z
    by (simp add: ParallelForEachVoxelIf_p_def ifbodies_join_irrelevant join_both_update Let_def
          split: prod.splits)
next
  assume "GetTSize im3 = 0"
  then show "ForEachVoxelIf_vp D (H\<lparr>vf_join := j1\<rparr>) (G\<lparr>vf_join := j2\<rparr>) im1 im2 im3 t =
      Some (if IsReduction H \<or> IsReduction G
            then Inl irtkforeachternaryvoxelfunction_must_not_be_reduction
            else if GetTSize im3 = 0 \<and> GetT im3 = 0 then Inl DivisionByZero
            else Inr (snd (case ifbody_re1 D H G im1 im2 im3
                             (mk_range 0 (if GetTSize im3 \<noteq> 0 then GetNumberOfVoxels im3
                                          else GetNumberOfVoxels im3 sdiv GetT im3)) t
                      of (b, m) \<Rightarrow> on_outside (j2 (snd b)) (on_inside (j1 (fst b)) (fst t, m)))))"
    by (simp add: ForEachVoxelIf_vp_def ForEachVoxelIf_r_vector ifbodies_join_irrelevant
          join_both_update)
qed (simp_all add: ForEachScalar_p_def ForEachScalar_r_def ForEachVoxel_p_def ForEachVoxel_r_def
       ForEachScalarIf1_r_def ForEachScalar_vp_def ForEachVoxel_vp_def ForEachVoxel_attr_vr_def
       ForEachVoxel_re1_vr_def ForEachVoxelIf_re3_vr_def ParallelForEachVoxel_vp_def
       ForEachVoxel_attr_r_def ForEachVoxel_re1_r_def ForEachVoxel_re2_r_def ForEachVoxel_re3_r_def
       ForEachScalarIf_r_def ForEachVoxelIf_p_def
       ForEachVoxelIf_attr_r_def ForEachVoxelIf_re1_r_def ForEachVoxelIf_re2_r_def
       ForEachVoxelIf_re3_r_def
       ParallelForEachScalar_p_def ParallelForEachScalar_r_def ParallelForEachVoxel_p_def
       ParallelForEachVoxel_r_def ParallelForEachVoxel_attr_r_def ParallelForEachVoxel_re1_r_def
       ParallelForEachVoxel_re2_r_def ParallelForEachVoxel_re3_r_def
       ParallelForEachScalarIf_r_def ParallelForEachVoxelIf_attr_r_def
       ParallelForEachVoxelIf_re1_r_def ParallelForEachVoxelIf_re2_r_def
       ParallelForEachVoxelIf_re3_r_def ParallelForEachScalarIf1_r_def
       bodies_join_irrelevant ifbodies_join_irrelevant join_both_update Let_def
       split: prod.splits)

text \<open>
  The theorem on a single thread with the recording functors. On one voxel,
  \<open>ParallelForEachScalarIf\<close> with a reduction as inside-functor and a functor that is no
  reduction as outside-functor logs the call and the join of both; with two functors that
  are no reductions it logs the call alone. On a last image of two voxels with temporal
  spacing zero, \<open>ForEachVoxelIf\<close> with two functors that are no reductions, by reference
  or by value, logs the two calls and both joins, and so does \<open>ParallelForEachVoxelIf\<close>
  by pointer with an outside-functor that is a reduction.
\<close>

theorem join_sequential_always_parallel_only_reductions_witness:
  "IsReduction (recorder InsideFunc True) \<and> \<not> IsReduction (recorder OutsideFunc False)
   \<and> ParallelForEachScalarIf_r serial Always
        ((recorder InsideFunc True)\<lparr>vf_join := (\<lambda>other s. (fst s, snd s @ [Join InsideFunc]))\<rparr>)
        ((recorder OutsideFunc False)\<lparr>vf_join := (\<lambda>other s. (fst s, snd s @ [Join OutsideFunc]))\<rparr>)
        (image 1 1 1 1 1 1) (image 1 1 1 1 1 2) (image 1 1 1 1 1 3) (((), ()), []) =
      (((), ()), [CallI InsideFunc (image 1 1 1 1 1 3) 0 (Ptr (Some 1) 0) (Ptr (Some 2) 0) (Ptr (Some 3) 0),
                  Join InsideFunc, Join OutsideFunc])
   \<and> ParallelForEachScalarIf_r serial Always
        ((recorder InsideFunc False)\<lparr>vf_join := (\<lambda>other s. (fst s, snd s @ [Join InsideFunc]))\<rparr>)
        ((recorder OutsideFunc False)\<lparr>vf_join := (\<lambda>other s. (fst s, snd s @ [Join OutsideFunc]))\<rparr>)
        (image 1 1 1 1 1 1) (image 1 1 1 1 1 2) (image 1 1 1 1 1 3) (((), ()), []) =
      (((), ()), [CallI InsideFunc (image 1 1 1 1 1 3) 0 (Ptr (Some 1) 0) (Ptr (Some 2) 0) (Ptr (Some 3) 0)])
   \<and> GetTSize (image 2 1 1 1 0 3) = 0
   \<and> ForEachVoxelIf_r Always
        ((recorder InsideFunc False)\<lparr>vf_join := (\<lambda>other s. (fst s, snd s @ [Join InsideFunc]))\<rparr>)
        ((recorder OutsideFunc False)\<lparr>vf_join := (\<lambda>other s. (fst s, snd s @ [Join OutsideFunc]))\<rparr>)
        (image 2 1 1 1 0 1) (image 2 1 1 1 0 2) (image 2 1 1 1 0 3) (((), ()), []) =
      Some (Inr (((), ()), [CallI InsideFunc (image 2 1 1 1 0 3) 0 (Ptr (Some 1) 0) (Ptr (Some 2) 0) (Ptr (Some 3) 0),
                            CallI InsideFunc (image 2 1 1 1 0 3) 1 (Ptr (Some 1) 1) (Ptr (Some 2) 1) (Ptr (Some 3) 1),
                            Join InsideFunc, Join OutsideFunc]))
   \<and> ParallelForEachVoxelIf_p serial Always
        ((recorder InsideFunc False)\<lparr>vf_join := (\<lambda>other s. (fst s, snd s @ [Join InsideFunc]))\<rparr>)
        ((recorder OutsideFunc True)\<lparr>vf_join := (\<lambda>other s. (fst s, snd s @ [Join OutsideFunc]))\<rparr>)
        (image 2 1 1 1 0 1) (image 2 1 1 1 0 2) (image 2 1 1 1 0 3) (((), ()), []) =
      Some (Inr (((), ()), [CallI InsideFunc (image 2 1 1 1 0 3) 0 (Ptr (Some 1) 0) (Ptr (Some 2) 0) (Ptr (Some 3) 0),
                            CallI InsideFunc (image 2 1 1 1 0 3) 1 (Ptr (Some 1) 1) (Ptr (Some 2) 1) (Ptr (Some 3) 1),
                            Join InsideFunc, Join OutsideFunc]))
   \<and> ForEachVoxelIf_vp Always
        ((recorder InsideFunc False)\<lparr>vf_join := (\<lambda>other s. (fst s, snd s @ [Join InsideFunc]))\<rparr>)
        ((recorder OutsideFunc False)\<lparr>vf_join := (\<lambda>other s. (fst s, snd s @ [Join OutsideFunc]))\<rparr>)
        (image 2 1 1 1 0 1) (image 2 1 1 1 0 2) (image 2 1 1 1 0 3) (((), ()), []) =
      Some (Inr [CallI InsideFunc (image 2 1 1 1 0 3) 0 (Ptr (Some 1) 0) (Ptr (Some 2) 0) (Ptr (Some 3) 0),
                 CallI InsideFunc (image 2 1 1 1 0 3) 1 (Ptr (Some 1) 1) (Ptr (Some 2) 1) (Ptr (Some 3) 1),
                 Join InsideFunc, Join OutsideFunc])"
proof -
  have z: "GetTSize (image 2 1 1 1 0 3) = 0" by (simp add: GetTSize_def image_def)
  note t = join_sequential_always_parallel_only_reductions [unfolded Let_def]
  note scalar_if = t
    [THEN conjunct2, THEN conjunct2, THEN conjunct2, THEN conjunct2, THEN conjunct2,
     THEN conjunct2, THEN conjunct2, THEN conjunct2, THEN conjunct2, THEN conjunct2,
     THEN conjunct2, THEN conjunct2, THEN conjunct2, THEN conjunct2, THEN conjunct2,
     THEN conjunct2, THEN conjunct2, THEN conjunct2, THEN conjunct2, THEN conjunct2,
     THEN conjunct2, THEN conjunct2, THEN conjunct2, THEN conjunct1]
  note voxel_if = t
    [THEN conjunct2, THEN conjunct2, THEN conjunct2, THEN conjunct2, THEN conjunct2,
     THEN conjunct2, THEN conjunct2, THEN conjunct2, THEN conjunct2, THEN conjunct2,
     THEN conjunct1, THEN mp, OF z]
  note par_voxel_if = t
    [THEN conjunct2, THEN conjunct2, THEN conjunct2, THEN conjunct2, THEN conjunct2,
     THEN conjunct2, THEN conjunct2, THEN conjunct2, THEN conjunct2, THEN conjunct2,
     THEN conjunct2, THEN conjunct2, THEN conjunct2, THEN conjunct2, THEN conjunct2,
     THEN conjunct2, THEN conjunct2, THEN conjunct2, THEN conjunct2, THEN conjunct2,
     THEN conjunct2, THEN conjunct2, THEN conjunct2, THEN conjunct2, THEN conjunct1, THEN mp,
     OF z, THEN conjunct1]
  note voxel_if_by_value = t
    [THEN conjunct2, THEN conjunct2, THEN conjunct2, THEN conjunct2, THEN conjunct2,
     THEN conjunct2, THEN conjunct2, THEN conjunct2, THEN conjunct2, THEN conjunct2,
     THEN conjunct2, THEN conjunct2, THEN conjunct2, THEN conjunct2, THEN conjunct2,
     THEN conjunct2, THEN conjunct2, THEN conjunct2, THEN conjunct2, THEN conjunct2,
     THEN conjunct2, THEN conjunct2, THEN conjunct2, THEN conjunct2, THEN conjunct2,
     THEN conjunct2, THEN conjunct2, THEN conjunct2, THEN conjunct2, THEN conjunct2,
     THEN conjunct2, THEN conjunct2, THEN conjunct2, THEN conjunct2, THEN conjunct2,
     THEN conjunct2, THEN conjunct2, THEN conjunct1, THEN mp, OF z]
  show ?thesis
    unfolding scalar_if voxel_if par_voxel_if voxel_if_by_value
    by (simp add: serial_def ifbody_re1_def for_loop.simps mk_range_def
          on_inside_def on_outside_def Always_def recorder_def image_def start_from_def
          IsEmpty_def GetPointerToVoxels_def GetX_def GetY_def GetZ_def GetT_def GetTSize_def
          GetNumberOfVoxels_def advance_def ptr_add_def)
qed

subsection \<open>Traversal of 2- and 3-dimensional ranges\<close>

lemma cols_loop:
  "foldl (\<lambda>cs i. case cs of (c, s) \<Rightarrow> (advance 1 c, h i c s)) (c, s) [bi..ei - 1] =
   (advance (if bi \<le> ei then ei - bi else 0) c,
    foldl (\<lambda>s i. h i (advance (i - bi) c) s) s [bi..ei - 1])"
proof -
  have "(\<lambda>cs i. case cs of (c, s) \<Rightarrow> (advance 1 c, h i c s)) =
        (\<lambda>(c, s) i. (advance 1 c, h i c s))"
    by (simp add: fun_eq_iff)
  then show ?thesis
    using foldl_cursor [where w = 1 and h = h and c = c and s = s and b = bi and e = ei]
    by simp
qed

lemma rows_cols_loop:
  "foldl (\<lambda>cs j. case foldl (\<lambda>cs i. case cs of (c, s) \<Rightarrow> (advance 1 c, h i j c s))
                           cs [bi..ei - 1]
                   of (c, s) \<Rightarrow> (advance s1 c, s)) (c0, s) [bj..ej - 1] =
   (advance ((s1 + (if bi \<le> ei then ei - bi else 0)) * (if bj \<le> ej then ej - bj else 0)) c0,
    foldl (\<lambda>s j. foldl (\<lambda>s i. h i j (advance (i - bi +
                       (s1 + (if bi \<le> ei then ei - bi else 0)) * (j - bj)) c0) s)
                    s [bi..ei - 1]) s [bj..ej - 1])"
proof -
  let ?W = "s1 + (if bi \<le> ei then ei - bi else 0)"
  let ?H = "\<lambda>j c s. foldl (\<lambda>s i. h i j (advance (i - bi) c) s) s [bi..ei - 1]"
  have step: "(\<lambda>cs j. case foldl (\<lambda>cs i. case cs of (c, s) \<Rightarrow> (advance 1 c, h i j c s))
                           cs [bi..ei - 1]
                   of (c, s) \<Rightarrow> (advance s1 c, s)) =
              (\<lambda>(c, s) j. (advance ?W c, ?H j c s))"
  proof (intro ext)
    fix cs :: "cursors \<times> 'a" and j
    obtain c s where cs: "cs = (c, s)" by (cases cs)
    show "(case foldl (\<lambda>cs i. case cs of (c, s) \<Rightarrow> (advance 1 c, h i j c s)) cs [bi..ei - 1]
           of (c, s) \<Rightarrow> (advance s1 c, s)) =
          (case cs of (c, s) \<Rightarrow> \<lambda>j. (advance ?W c, ?H j c s)) j"
      unfolding cs cols_loop by (simp add: advance_advance)
  qed
  show ?thesis
    unfolding step
    by (subst foldl_cursor [where w = ?W and h = ?H])
       (simp add: advance_advance)
qed

lemma pages_rows_cols_loop:
  "foldl (\<lambda>cs k.
       case foldl (\<lambda>cs j. case foldl (\<lambda>cs i. case cs of (c, s) \<Rightarrow> (advance 1 c, h i j k c s))
                                     cs [bi..ei - 1]
                            of (c, s) \<Rightarrow> (advance s1 c, s)) cs [bj..ej - 1]
       of (c, s) \<Rightarrow> (advance s2 c, s)) (c0, s) [bk..ek - 1] =
   (advance ((s2 + (s1 + (if bi \<le> ei then ei - bi else 0)) * (if bj \<le> ej then ej - bj else 0))
             * (if bk \<le> ek then ek - bk else 0)) c0,
    foldl (\<lambda>s k. foldl (\<lambda>s j. foldl (\<lambda>s i. h i j k (advance (i - bi +
                       (s1 + (if bi \<le> ei then ei - bi else 0)) * (j - bj) +
                       (s2 + (s1 + (if bi \<le> ei then ei - bi else 0)) *
                             (if bj \<le> ej then ej - bj else 0)) * (k - bk)) c0) s)
                    s [bi..ei - 1]) s [bj..ej - 1]) s [bk..ek - 1])"
proof -
  let ?W = "s1 + (if bi \<le> ei then ei - bi else 0)"
  let ?W2 = "s2 + ?W * (if bj \<le> ej then ej - bj else 0)"
  let ?H = "\<lambda>k c s. foldl (\<lambda>s j. foldl (\<lambda>s i. h i j k (advance (i - bi + ?W * (j - bj)) c) s)
                    s [bi..ei - 1]) s [bj..ej - 1]"
  have step: "(\<lambda>cs k.
       case foldl (\<lambda>cs j. case foldl (\<lambda>cs i. case cs of (c, s) \<Rightarrow> (advance 1 c, h i j k c s))
                                     cs [bi..ei - 1]
                            of (c, s) \<Rightarrow> (advance s1 c, s)) cs [bj..ej - 1]
       of (c, s) \<Rightarrow> (advance s2 c, s)) =
              (\<lambda>(c, s) k. (advance ?W2 c, ?H k c s))"
  proof (intro ext)
    fix cs :: "cursors \<times> 'a" and k
    obtain c s where cs: "cs = (c, s)" by (cases cs)
    show "(case foldl (\<lambda>cs j. case foldl (\<lambda>cs i. case cs of (c, s) \<Rightarrow> (advance 1 c, h i j k c s))
                                     cs [bi..ei - 1]
                            of (c, s) \<Rightarrow> (advance s1 c, s)) cs [bj..ej - 1]
           of (c, s) \<Rightarrow> (advance s2 c, s)) =
          (case cs of (c, s) \<Rightarrow> \<lambda>k. (advance ?W2 c, ?H k c s)) k"
      unfolding cs rows_cols_loop [where h = "\<lambda>i j. h i j k"]
      by (simp add: advance_advance)
  qed
  show ?thesis
    unfolding step
    by (subst foldl_cursor [where w = ?W2 and h = ?H])
       (simp add: advance_advance add.assoc)
qed

lemma int32_fits: "fits_int n \<Longrightarrow> int32 n = n"
  by (simp add: fits_int_def int32_def)

lemma body_re2_calls:
  assumes "\<not> IsEmpty im1" "\<not> IsEmpty im2" "\<not> IsEmpty im3"
    and "GetX im1 = GetX im3" "GetX im2 = GetX im3"
    and "fits_int (r_end (cols2 re) - r_begin (cols2 re))"
    and "fits_int (GetX im3 - (r_end (cols2 re) - r_begin (cols2 re)))"
  shows "body_re2 F im1 im2 im3 k l re s =
     foldl (\<lambda>s (i, j). call4 F i j k l (GetPointerToVoxels4 im1 i j k l)
                          (GetPointerToVoxels4 im2 i j k l) (GetPointerToVoxels4 im3 i j k l) s) s
       [(i, j). j \<leftarrow> [r_begin (rows2 re)..r_end (rows2 re) - 1],
                i \<leftarrow> [r_begin (cols2 re)..r_end (cols2 re) - 1]]"
proof -
  let ?bi = "r_begin (cols2 re)" and ?ei = "r_end (cols2 re)"
  let ?bj = "r_begin (rows2 re)" and ?ej = "r_end (rows2 re)"
  let ?d = "\<lambda>i j. i - ?bi + (GetX im3 - (?ei - ?bi) + (if ?bi \<le> ?ei then ?ei - ?bi else 0)) * (j - ?bj)"
  have s1: "int32 (GetX im3 - int32 (?ei - ?bi)) = GetX im3 - (?ei - ?bi)"
    by (simp add: int32_fits assms)
  have "body_re2 F im1 im2 im3 k l re s =
        foldl (\<lambda>s j. foldl (\<lambda>s i. call4 F i j k l
                  (ptr_add (start_at im1 ?bi ?bj k l) (?d i j))
                  (ptr_add (start_at im2 ?bi ?bj k l) (?d i j))
                  (ptr_add (start_at im3 ?bi ?bj k l) (?d i j)) s) s [?bi..?ei - 1]) s [?bj..?ej - 1]"
    unfolding body_re2_def Let_def for_loop_upto s1
    by (subst rows_cols_loop
          [where h = "\<lambda>i j c s. case c of (p1, p2, p3) \<Rightarrow> call4 F i j k l p1 p2 p3 s"])
       (simp add: advance_def split del: if_split)
  also have "\<dots> = foldl (\<lambda>s j. foldl (\<lambda>s i. call4 F i j k l
                  (GetPointerToVoxels4 im1 i j k l) (GetPointerToVoxels4 im2 i j k l)
                  (GetPointerToVoxels4 im3 i j k l) s) s [?bi..?ei - 1]) s [?bj..?ej - 1]"
    by (intro foldl_cong refl)
       (simp add: start_at_def GetPointerToVoxels4_def ptr_add_def assms(1-5) algebra_simps)
  also have "\<dots> = foldl (\<lambda>s (i, j). call4 F i j k l (GetPointerToVoxels4 im1 i j k l)
                          (GetPointerToVoxels4 im2 i j k l) (GetPointerToVoxels4 im3 i j k l) s) s
       [(i, j). j \<leftarrow> [?bj..?ej - 1], i \<leftarrow> [?bi..?ei - 1]]"
    by (simp add: foldl_concat foldl_map)
  finally show ?thesis .
qed

lemma body_re3_calls:
  assumes "\<not> IsEmpty im1" "\<not> IsEmpty im2" "\<not> IsEmpty im3"
    and "GetX im1 = GetX im3" "GetX im2 = GetX im3"
    and "GetY im1 = GetY im3" "GetY im2 = GetY im3"
    and "fits_int (r_end (cols3 re) - r_begin (cols3 re))"
    and "fits_int (GetX im3 - (r_end (cols3 re) - r_begin (cols3 re)))"
    and "fits_int (r_end (rows3 re) - r_begin (rows3 re))"
    and "fits_int (GetY im3 - (r_end (rows3 re) - r_begin (rows3 re)))"
    and "fits_int ((GetY im3 - (r_end (rows3 re) - r_begin (rows3 re))) * GetX im3)"
  shows "body_re3 F im1 im2 im3 l re s =
     foldl (\<lambda>s (i, j, k). call4 F i j k l (GetPointerToVoxels4 im1 i j k l)
                          (GetPointerToVoxels4 im2 i j k l) (GetPointerToVoxels4 im3 i j k l) s) s
       [(i, j, k). k \<leftarrow> [r_begin (pages3 re)..r_end (pages3 re) - 1],
                   j \<leftarrow> [r_begin (rows3 re)..r_end (rows3 re) - 1],
                   i \<leftarrow> [r_begin (cols3 re)..r_end (cols3 re) - 1]]"
proof -
  let ?bi = "r_begin (cols3 re)" and ?ei = "r_end (cols3 re)"
  let ?bj = "r_begin (rows3 re)" and ?ej = "r_end (rows3 re)"
  let ?bk = "r_begin (pages3 re)" and ?ek = "r_end (pages3 re)"
  let ?d = "\<lambda>i j k. i - ?bi +
       (GetX im3 - (?ei - ?bi) + (if ?bi \<le> ?ei then ?ei - ?bi else 0)) * (j - ?bj) +
       ((GetY im3 - (?ej - ?bj)) * GetX im3 +
        (GetX im3 - (?ei - ?bi) + (if ?bi \<le> ?ei then ?ei - ?bi else 0)) *
          (if ?bj \<le> ?ej then ?ej - ?bj else 0)) * (k - ?bk)"
  have s1: "int32 (GetX im3 - int32 (?ei - ?bi)) = GetX im3 - (?ei - ?bi)"
    by (simp add: int32_fits assms)
  have s2: "int32 (int32 (GetY im3 - int32 (?ej - ?bj)) * GetX im3) =
            (GetY im3 - (?ej - ?bj)) * GetX im3"
    by (simp add: int32_fits assms)
  have "body_re3 F im1 im2 im3 l re s =
        foldl (\<lambda>s k. foldl (\<lambda>s j. foldl (\<lambda>s i. call4 F i j k l
                  (ptr_add (start_at im1 ?bi ?bj ?bk l) (?d i j k))
                  (ptr_add (start_at im2 ?bi ?bj ?bk l) (?d i j k))
                  (ptr_add (start_at im3 ?bi ?bj ?bk l) (?d i j k)) s)
              s [?bi..?ei - 1]) s [?bj..?ej - 1]) s [?bk..?ek - 1]"
    unfolding body_re3_def Let_def for_loop_upto s1 s2
    by (subst pages_rows_cols_loop
          [where h = "\<lambda>i j k c s. case c of (p1, p2, p3) \<Rightarrow> call4 F i j k l p1 p2 p3 s"])
       (simp add: advance_def split del: if_split)
  also have "\<dots> = foldl (\<lambda>s k. foldl (\<lambda>s j. foldl (\<lambda>s i. call4 F i j k l
                  (GetPointerToVoxels4 im1 i j k l) (GetPointerToVoxels4 im2 i j k l)
                  (GetPointerToVoxels4 im3 i j k l) s)
              s [?bi..?ei - 1]) s [?bj..?ej - 1]) s [?bk..?ek - 1]"
    by (intro foldl_cong refl)
       (simp add: start_at_def GetPointerToVoxels4_def ptr_add_def assms(1-7) algebra_simps)
  also have "\<dots> = foldl (\<lambda>s (i, j, k). call4 F i j k l (GetPointerToVoxels4 im1 i j k l)
                          (GetPointerToVoxels4 im2 i j k l) (GetPointerToVoxels4 im3 i j k l) s) s
       [(i, j, k). k \<leftarrow> [?bk..?ek - 1], j \<leftarrow> [?bj..?ej - 1], i \<leftarrow> [?bi..?ei - 1]]"
    by (simp add: foldl_concat foldl_map)
  finally show ?thesis .
qed

lemma body_re2_strides:
  assumes "fits_int (r_end (cols2 re) - r_begin (cols2 re))"
    and "fits_int (GetX im3 - (r_end (cols2 re) - r_begin (cols2 re)))"
  shows "body_re2 F im1 im2 im3 k l re s =
         snd (foldl (\<lambda>cs j.
                case foldl (\<lambda>(c, s) i.
                       (advance 1 c, case c of (p1, p2, p3) \<Rightarrow> call4 F i j k l p1 p2 p3 s))
                     cs [r_begin (cols2 re)..r_end (cols2 re) - 1]
                of (c, s) \<Rightarrow> (advance (GetX im3 - (r_end (cols2 re) - r_begin (cols2 re))) c, s))
              ((start_at im1 (r_begin (cols2 re)) (r_begin (rows2 re)) k l,
                start_at im2 (r_begin (cols2 re)) (r_begin (rows2 re)) k l,
                start_at im3 (r_begin (cols2 re)) (r_begin (rows2 re)) k l), s)
              [r_begin (rows2 re)..r_end (rows2 re) - 1])"
proof -
  have s1: "int32 (GetX im3 - int32 (r_end (cols2 re) - r_begin (cols2 re))) =
            GetX im3 - (r_end (cols2 re) - r_begin (cols2 re))"
    by (simp add: int32_fits assms)
  show ?thesis
    unfolding body_re2_def Let_def for_loop_upto s1 by (simp add: case_prod_unfold)
qed

lemma body_re3_strides:
  assumes "fits_int (r_end (cols3 re) - r_begin (cols3 re))"
    and "fits_int (GetX im3 - (r_end (cols3 re) - r_begin (cols3 re)))"
    and "fits_int (r_end (rows3 re) - r_begin (rows3 re))"
    and "fits_int (GetY im3 - (r_end (rows3 re) - r_begin (rows3 re)))"
    and "fits_int ((GetY im3 - (r_end (rows3 re) - r_begin (rows3 re))) * GetX im3)"
  shows "body_re3 F im1 im2 im3 l re s =
         snd (foldl (\<lambda>cs k.
                case foldl (\<lambda>cs j.
                       case foldl (\<lambda>(c, s) i.
                              (advance 1 c,
                               case c of (p1, p2, p3) \<Rightarrow> call4 F i j k l p1 p2 p3 s))
                            cs [r_begin (cols3 re)..r_end (cols3 re) - 1]
                       of (c, s) \<Rightarrow> (advance (GetX im3 - (r_end (cols3 re) - r_begin (cols3 re))) c, s))
                     cs [r_begin (rows3 re)..r_end (rows3 re) - 1]
                of (c, s) \<Rightarrow> (advance ((GetY im3 - (r_end (rows3 re) - r_begin (rows3 re))) * GetX im3) c, s))
              ((start_at im1 (r_begin (cols3 re)) (r_begin (rows3 re)) (r_begin (pages3 re)) l,
                start_at im2 (r_begin (cols3 re)) (r_begin (rows3 re)) (r_begin (pages3 re)) l,
                start_at im3 (r_begin (cols3 re)) (r_begin (rows3 re)) (r_begin (pages3 re)) l), s)
              [r_begin (pages3 re)..r_end (pages3 re) - 1])"
proof -
  have s1: "int32 (GetX im3 - int32 (r_end (cols3 re) - r_begin (cols3 re))) =
            GetX im3 - (r_end (cols3 re) - r_begin (cols3 re))"
    by (simp add: int32_fits assms)
  have s2: "int32 (int32 (GetY im3 - int32 (r_end (rows3 re) - r_begin (rows3 re))) * GetX im3) =
            (GetY im3 - (r_end (rows3 re) - r_begin (rows3 re))) * GetX im3"
    by (simp add: int32_fits assms)
  show ?thesis
    unfolding body_re3_def Let_def for_loop_upto s1 s2 by (simp add: case_prod_unfold)
qed

lemma range_in_image_fits:
  assumes "0 \<le> bi" "bi \<le> ei" "ei \<le> X" "0 \<le> bj" "bj \<le> ej" "ej \<le> Y" "X * Y < 2 ^ 31" "X < 2 ^ 31"
    and "Y < 2 ^ 31"
  shows "fits_int (ei - bi)" "fits_int (X - (ei - bi))" "fits_int (ej - bj)"
    "fits_int (Y - (ej - bj))" "fits_int ((Y - (ej - bj)) * X)"
proof -
  from assms show "fits_int (ei - bi)" "fits_int (X - (ei - bi))" "fits_int (ej - bj)"
    "fits_int (Y - (ej - bj))"
    by (simp_all add: fits_int_def)
  have x: "0 \<le> X" using assms by simp
  have d: "0 \<le> Y - (ej - bj)" "Y - (ej - bj) \<le> Y" using assms by simp_all
  have lo: "0 \<le> (Y - (ej - bj)) * X"
    using d(1) x by (rule mult_nonneg_nonneg)
  have "(Y - (ej - bj)) * X \<le> Y * X"
    using d(2) x by (rule mult_right_mono)
  also have "\<dots> < 2 ^ 31" using assms by (simp add: mult.commute)
  finally have hi: "(Y - (ej - bj)) * X < 2 ^ 31" .
  from lo hi show "fits_int ((Y - (ej - bj)) * X)"
    unfolding fits_int_def by linarith
qed

lemma distinct_pairs:
  "distinct xs \<Longrightarrow> distinct ys \<Longrightarrow> distinct [(i, j). j \<leftarrow> ys, i \<leftarrow> xs]"
proof -
  assume a: "distinct xs" "distinct ys"
  have "[(i, j). j \<leftarrow> ys, i \<leftarrow> xs] = map (\<lambda>(j, i). (i, j)) (List.product ys xs)"
    by (simp add: product_concat_map map_concat comp_def)
  with a show ?thesis by (auto simp: distinct_map distinct_product inj_on_def)
qed

lemma distinct_triples:
  "distinct xs \<Longrightarrow> distinct ys \<Longrightarrow> distinct zs \<Longrightarrow>
   distinct [(i, j, k). k \<leftarrow> zs, j \<leftarrow> ys, i \<leftarrow> xs]"
proof -
  assume a: "distinct xs" "distinct ys" "distinct zs"
  have "[(i, j, k). k \<leftarrow> zs, j \<leftarrow> ys, i \<leftarrow> xs] =
        map (\<lambda>(k, j, i). (i, j, k)) (List.product zs (List.product ys xs))"
    by (simp add: product_concat_map map_concat comp_def)
  with a show ?thesis by (auto simp: distinct_map distinct_product inj_on_def)
qed

text \<open>
  Claim C7. The code computes the strides in \<open>int\<close>; the statement is for the ranges and
  images whose strides fit an \<open>int\<close> (\<open>fits_int\<close>), which are all the ranges that lie
  inside an image of fewer than \<open>2^31\<close> voxels per page (\<open>range_in_image_fits\<close>).

  The traversal of a 2-dimensional range of rows \<open>[bj, ej)\<close> and columns \<open>[bi, ei)\<close> in the
  plane \<open>_k\<close> and channel \<open>_l\<close> of the body calls the functor at each \<open>(i, j, _k, _l)\<close> of
  the range, rows outermost, each coordinate once; every cursor moves by one voxel per call
  and, at the end of each row, by the stride \<open>GetX(im3) - (ei - bi)\<close>. When the three
  images are non-empty and as wide as the last one, each of the three pointers of a call is
  the address of the voxel \<open>(i, j, _k, _l)\<close> in its image. The traversal of a
  3-dimensional range in the channel \<open>_l\<close> calls the functor at each \<open>(i, j, k, _l)\<close> of
  the range, pages outermost, each coordinate once; there the cursors also move by
  \<open>(GetY(im3) - (ej - bj)) * GetX(im3)\<close> at the end of each page, and when the images are
  non-empty and as wide and as high as the last one the pointers of a call are the
  addresses of the voxel \<open>(i, j, k, _l)\<close>.
\<close>

theorem range_strides_address_current_voxel:
  "(let bi = r_begin (cols2 re2); ei = r_end (cols2 re2);
        bj = r_begin (rows2 re2); ej = r_end (rows2 re2);
        coords = [(i, j). j \<leftarrow> [bj..ej - 1], i \<leftarrow> [bi..ei - 1]]
    in (fits_int (ei - bi) \<and> fits_int (GetX im3 - (ei - bi)) \<longrightarrow>
        body_re2 F im1 im2 im3 k l re2 s =
          snd (foldl (\<lambda>cs j.
                 case foldl (\<lambda>(c, s) i.
                        (advance 1 c, case c of (p1, p2, p3) \<Rightarrow> call4 F i j k l p1 p2 p3 s))
                      cs [bi..ei - 1]
                 of (c, s) \<Rightarrow> (advance (GetX im3 - (ei - bi)) c, s))
               ((start_at im1 bi bj k l, start_at im2 bi bj k l, start_at im3 bi bj k l), s)
               [bj..ej - 1])
        \<and> (\<not> IsEmpty im1 \<and> \<not> IsEmpty im2 \<and> \<not> IsEmpty im3 \<and>
           GetX im1 = GetX im3 \<and> GetX im2 = GetX im3 \<longrightarrow>
           body_re2 F im1 im2 im3 k l re2 s =
             foldl (\<lambda>s (i, j). call4 F i j k l (GetPointerToVoxels4 im1 i j k l)
                      (GetPointerToVoxels4 im2 i j k l) (GetPointerToVoxels4 im3 i j k l) s)
               s coords))
       \<and> distinct coords)
   \<and> (let bi = r_begin (cols3 re3); ei = r_end (cols3 re3);
        bj = r_begin (rows3 re3); ej = r_end (rows3 re3);
        bk = r_begin (pages3 re3); ek = r_end (pages3 re3);
        coords = [(i, j, k). k \<leftarrow> [bk..ek - 1], j \<leftarrow> [bj..ej - 1], i \<leftarrow> [bi..ei - 1]]
    in (fits_int (ei - bi) \<and> fits_int (GetX im3 - (ei - bi)) \<and>
        fits_int (ej - bj) \<and> fits_int (GetY im3 - (ej - bj)) \<and>
        fits_int ((GetY im3 - (ej - bj)) * GetX im3) \<longrightarrow>
        body_re3 F im1 im2 im3 l re3 s =
          snd (foldl (\<lambda>cs k.
                 case foldl (\<lambda>cs j.
                        case foldl (\<lambda>(c, s) i.
                               (advance 1 c,
                                case c of (p1, p2, p3) \<Rightarrow> call4 F i j k l p1 p2 p3 s))
                             cs [bi..ei - 1]
                        of (c, s) \<Rightarrow> (advance (GetX im3 - (ei - bi)) c, s))
                      cs [bj..ej - 1]
                 of (c, s) \<Rightarrow> (advance ((GetY im3 - (ej - bj)) * GetX im3) c, s))
               ((start_at im1 bi bj bk l, start_at im2 bi bj bk l, start_at im3 bi bj bk l), s)
               [bk..ek - 1])
        \<and> (\<not> IsEmpty im1 \<and> \<not> IsEmpty im2 \<and> \<not> IsEmpty im3 \<and>
           GetX im1 = GetX im3 \<and> GetX im2 = GetX im3 \<and>
           GetY im1 = GetY im3 \<and> GetY im2 = GetY im3 \<longrightarrow>
           body_re3 F im1 im2 im3 l re3 s =
             foldl (\<lambda>s (i, j, k). call4 F i j k l (GetPointerToVoxels4 im1 i j k l)
                      (GetPointerToVoxels4 im2 i j k l) (GetPointerToVoxels4 im3 i j k l) s)
               s coords))
       \<and> distinct coords)"
  unfolding Let_def
proof (intro conjI impI)
  assume "fits_int (r_end (cols2 re2) - r_begin (cols2 re2)) \<and>
          fits_int (GetX im3 - (r_end (cols2 re2) - r_begin (cols2 re2)))"
     and "\<not> IsEmpty im1 \<and> \<not> IsEmpty im2 \<and> \<not> IsEmpty im3 \<and>
          GetX im1 = GetX im3 \<and> GetX im2 = GetX im3"
  then show "body_re2 F im1 im2 im3 k l re2 s =
         foldl (\<lambda>s (i, j). call4 F i j k l (GetPointerToVoxels4 im1 i j k l)
                  (GetPointerToVoxels4 im2 i j k l) (GetPointerToVoxels4 im3 i j k l) s) s
           [(i, j). j \<leftarrow> [r_begin (rows2 re2)..r_end (rows2 re2) - 1],
                    i \<leftarrow> [r_begin (cols2 re2)..r_end (cols2 re2) - 1]]"
    by (intro body_re2_calls) simp_all
next
  assume "fits_int (r_end (cols3 re3) - r_begin (cols3 re3)) \<and>
          fits_int (GetX im3 - (r_end (cols3 re3) - r_begin (cols3 re3))) \<and>
          fits_int (r_end (rows3 re3) - r_begin (rows3 re3)) \<and>
          fits_int (GetY im3 - (r_end (rows3 re3) - r_begin (rows3 re3))) \<and>
          fits_int ((GetY im3 - (r_end (rows3 re3) - r_begin (rows3 re3))) * GetX im3)"
     and "\<not> IsEmpty im1 \<and> \<not> IsEmpty im2 \<and> \<not> IsEmpty im3 \<and>
          GetX im1 = GetX im3 \<and> GetX im2 = GetX im3 \<and>
          GetY im1 = GetY im3 \<and> GetY im2 = GetY im3"
  then show "body_re3 F im1 im2 im3 l re3 s =
         foldl (\<lambda>s (i, j, k). call4 F i j k l (GetPointerToVoxels4 im1 i j k l)
                  (GetPointerToVoxels4 im2 i j k l) (GetPointerToVoxels4 im3 i j k l) s) s
           [(i, j, k). k \<leftarrow> [r_begin (pages3 re3)..r_end (pages3 re3) - 1],
                       j \<leftarrow> [r_begin (rows3 re3)..r_end (rows3 re3) - 1],
                       i \<leftarrow> [r_begin (cols3 re3)..r_end (cols3 re3) - 1]]"
    by (intro body_re3_calls) simp_all
next
  show "distinct [(i, j). j \<leftarrow> [r_begin (rows2 re2)..r_end (rows2 re2) - 1],
                    i \<leftarrow> [r_begin (cols2 re2)..r_end (cols2 re2) - 1]]"
    by (rule distinct_pairs) simp_all
  show "distinct [(i, j, k). k \<leftarrow> [r_begin (pages3 re3)..r_end (pages3 re3) - 1],
                       j \<leftarrow> [r_begin (rows3 re3)..r_end (rows3 re3) - 1],
                       i \<leftarrow> [r_begin (cols3 re3)..r_end (cols3 re3) - 1]]"
    by (rule distinct_triples) simp_all
next
  assume "fits_int (r_end (cols2 re2) - r_begin (cols2 re2)) \<and>
          fits_int (GetX im3 - (r_end (cols2 re2) - r_begin (cols2 re2)))"
  then show "body_re2 F im1 im2 im3 k l re2 s =
         snd (foldl (\<lambda>cs j.
                case foldl (\<lambda>(c, s) i.
                       (advance 1 c, case c of (p1, p2, p3) \<Rightarrow> call4 F i j k l p1 p2 p3 s))
                     cs [r_begin (cols2 re2)..r_end (cols2 re2) - 1]
                of (c, s) \<Rightarrow> (advance (GetX im3 - (r_end (cols2 re2) - r_begin (cols2 re2))) c, s))
              ((start_at im1 (r_begin (cols2 re2)) (r_begin (rows2 re2)) k l,
                start_at im2 (r_begin (cols2 re2)) (r_begin (rows2 re2)) k l,
                start_at im3 (r_begin (cols2 re2)) (r_begin (rows2 re2)) k l), s)
              [r_begin (rows2 re2)..r_end (rows2 re2) - 1])"
    by (intro body_re2_strides) simp_all
next
  assume "fits_int (r_end (cols3 re3) - r_begin (cols3 re3)) \<and>
          fits_int (GetX im3 - (r_end (cols3 re3) - r_begin (cols3 re3))) \<and>
          fits_int (r_end (rows3 re3) - r_begin (rows3 re3)) \<and>
          fits_int (GetY im3 - (r_end (rows3 re3) - r_begin (rows3 re3))) \<and>
          fits_int ((GetY im3 - (r_end (rows3 re3) - r_begin (rows3 re3))) * GetX im3)"
  then show "body_re3 F im1 im2 im3 l re3 s =
         snd (foldl (\<lambda>cs k.
                case foldl (\<lambda>cs j.
                       case foldl (\<lambda>(c, s) i.
                              (advance 1 c,
                               case c of (p1, p2, p3) \<Rightarrow> call4 F i j k l p1 p2 p3 s))
                            cs [r_begin (cols3 re3)..r_end (cols3 re3) - 1]
                       of (c, s) \<Rightarrow> (advance (GetX im3 - (r_end (cols3 re3) - r_begin (cols3 re3))) c, s))
                     cs [r_begin (rows3 re3)..r_end (rows3 re3) - 1]
                of (c, s) \<Rightarrow> (advance ((GetY im3 - (r_end (rows3 re3) - r_begin (rows3 re3))) * GetX im3) c, s))
              ((start_at im1 (r_begin (cols3 re3)) (r_begin (rows3 re3)) (r_begin (pages3 re3)) l,
                start_at im2 (r_begin (cols3 re3)) (r_begin (rows3 re3)) (r_begin (pages3 re3)) l,
                start_at im3 (r_begin (cols3 re3)) (r_begin (rows3 re3)) (r_begin (pages3 re3)) l), s)
              [r_begin (pages3 re3)..r_end (pages3 re3) - 1])"
    by (intro body_re3_strides) simp_all
qed

text \<open>
  The theorem on images 3 voxels wide and 2 high: columns 1 and 2 of both rows are the
  voxels at offsets 1, 2, 4, 5; in two pages, columns 0 and 1 of row 1 are the voxels at
  offsets 3, 4 and 9, 10.
\<close>

theorem range_strides_address_current_voxel_witness:
  "fits_int (3 - 1) \<and> fits_int (GetX (image 3 2 1 1 1 3) - (3 - 1))
   \<and> \<not> IsEmpty (image 3 2 1 1 1 1) \<and> \<not> IsEmpty (image 3 2 1 1 1 2) \<and> \<not> IsEmpty (image 3 2 1 1 1 3)
   \<and> GetX (image 3 2 1 1 1 1) = GetX (image 3 2 1 1 1 3)
   \<and> GetX (image 3 2 1 1 1 2) = GetX (image 3 2 1 1 1 3)
   \<and> snd (body_re2 (recorder InsideFunc False)
            (image 3 2 1 1 1 1) (image 3 2 1 1 1 2) (image 3 2 1 1 1 3) 0 0
            \<lparr>rows2 = mk_range 0 2, cols2 = mk_range 1 3\<rparr> ((), [])) =
       [Call4 InsideFunc 1 0 0 0 (Ptr (Some 1) 1) (Ptr (Some 2) 1) (Ptr (Some 3) 1),
        Call4 InsideFunc 2 0 0 0 (Ptr (Some 1) 2) (Ptr (Some 2) 2) (Ptr (Some 3) 2),
        Call4 InsideFunc 1 1 0 0 (Ptr (Some 1) 4) (Ptr (Some 2) 4) (Ptr (Some 3) 4),
        Call4 InsideFunc 2 1 0 0 (Ptr (Some 1) 5) (Ptr (Some 2) 5) (Ptr (Some 3) 5)]
   \<and> fits_int ((GetY (image 3 2 2 1 1 3) - (2 - 1)) * GetX (image 3 2 2 1 1 3))
   \<and> snd (body_re3 (recorder InsideFunc False)
            (image 3 2 2 1 1 1) (image 3 2 2 1 1 2) (image 3 2 2 1 1 3) 0
            (mk_range3d 0 2 1 2 0 2) ((), [])) =
       [Call4 InsideFunc 0 1 0 0 (Ptr (Some 1) 3) (Ptr (Some 2) 3) (Ptr (Some 3) 3),
        Call4 InsideFunc 1 1 0 0 (Ptr (Some 1) 4) (Ptr (Some 2) 4) (Ptr (Some 3) 4),
        Call4 InsideFunc 0 1 1 0 (Ptr (Some 1) 9) (Ptr (Some 2) 9) (Ptr (Some 3) 9),
        Call4 InsideFunc 1 1 1 0 (Ptr (Some 1) 10) (Ptr (Some 2) 10) (Ptr (Some 3) 10)]"
proof -
  let ?r2 = "\<lparr>rows2 = mk_range 0 2, cols2 = mk_range 1 3\<rparr>"
  let ?r3 = "mk_range3d 0 2 1 2 0 2"
  have f2: "fits_int (r_end (cols2 ?r2) - r_begin (cols2 ?r2)) \<and>
      fits_int (GetX (image 3 2 1 1 1 3) - (r_end (cols2 ?r2) - r_begin (cols2 ?r2)))"
    by (simp add: fits_int_def mk_range_def GetX_def image_def)
  have e2: "\<not> IsEmpty (image 3 2 1 1 1 1) \<and> \<not> IsEmpty (image 3 2 1 1 1 2) \<and>
      \<not> IsEmpty (image 3 2 1 1 1 3) \<and>
      GetX (image 3 2 1 1 1 1) = GetX (image 3 2 1 1 1 3) \<and>
      GetX (image 3 2 1 1 1 2) = GetX (image 3 2 1 1 1 3)"
    by (simp add: IsEmpty_def GetX_def image_def)
  have f3: "fits_int (r_end (cols3 ?r3) - r_begin (cols3 ?r3)) \<and>
      fits_int (GetX (image 3 2 2 1 1 3) - (r_end (cols3 ?r3) - r_begin (cols3 ?r3))) \<and>
      fits_int (r_end (rows3 ?r3) - r_begin (rows3 ?r3)) \<and>
      fits_int (GetY (image 3 2 2 1 1 3) - (r_end (rows3 ?r3) - r_begin (rows3 ?r3))) \<and>
      fits_int ((GetY (image 3 2 2 1 1 3) - (r_end (rows3 ?r3) - r_begin (rows3 ?r3))) *
                GetX (image 3 2 2 1 1 3))"
    by (simp add: fits_int_def mk_range3d_def mk_range_def GetX_def GetY_def image_def)
  have e3: "\<not> IsEmpty (image 3 2 2 1 1 1) \<and> \<not> IsEmpty (image 3 2 2 1 1 2) \<and>
      \<not> IsEmpty (image 3 2 2 1 1 3) \<and>
      GetX (image 3 2 2 1 1 1) = GetX (image 3 2 2 1 1 3) \<and>
      GetX (image 3 2 2 1 1 2) = GetX (image 3 2 2 1 1 3) \<and>
      GetY (image 3 2 2 1 1 1) = GetY (image 3 2 2 1 1 3) \<and>
      GetY (image 3 2 2 1 1 2) = GetY (image 3 2 2 1 1 3)"
    by (simp add: IsEmpty_def GetX_def GetY_def image_def)
  note t2 = range_strides_address_current_voxel
    [unfolded Let_def, THEN conjunct1, THEN conjunct1, THEN mp, OF f2, THEN conjunct2,
     THEN mp, OF e2]
  note t3 = range_strides_address_current_voxel
    [unfolded Let_def, THEN conjunct2, THEN conjunct1, THEN mp, OF f3, THEN conjunct2,
     THEN mp, OF e3]
  show ?thesis
    unfolding t2 t3
    by (simp add: upto.simps mk_range3d_def mk_range_def recorder_def image_def fits_int_def
          IsEmpty_def GetPointerToVoxels4_def GetX_def GetY_def GetZ_def)
qed

end
